theory Spec2Isabelle
  imports Main "HOL-Library.Multiset"
begin

section \<open>Time: JavaScript dates and the local time zone\<close>

text \<open>
  A JavaScript \<open>Date\<close> is modelled by its time value, the number of milliseconds since
  1970-01-01T00:00:00Z, as an \<open>int\<close>. Only valid dates are modelled (no \<open>NaN\<close> time
  value).

  What the engine computes about one instant (its weekday, its date, a time of day on
  its date, the start of its day) is computed with the offset \<open>tzo\<close> of local time from
  UTC that is in force at that instant, in milliseconds (local time = UTC + \<open>tzo\<close>).
  The loop of \<open>getABDay\<close> walks over months, across the changes of offset of the time
  zone: it is computed with the rules of the zone, below.

  \<open>getNow()\<close> reads the clock (or the debug override); every function below that calls
  it takes the value it returned as the parameter \<open>now\<close>, the same one for all the calls
  made while one result is computed.
\<close>

type_synonym instant = int

abbreviation msPerDay :: int where "msPerDay \<equiv> 86400000"
abbreviation msPerHour :: int where "msPerHour \<equiv> 3600000"
abbreviation msPerMinute :: int where "msPerMinute \<equiv> 60000"

definition LocalTime :: "int \<Rightarrow> instant \<Rightarrow> int" where
  "LocalTime tzo t = t + tzo"

definition UTC :: "int \<Rightarrow> int \<Rightarrow> instant" where
  "UTC tzo lt = lt - tzo"

definition Day :: "int \<Rightarrow> int" where
  "Day lt = lt div msPerDay"

definition TimeWithinDay :: "int \<Rightarrow> int" where
  "TimeWithinDay lt = lt mod msPerDay"

definition MakeDate :: "int \<Rightarrow> int \<Rightarrow> int" where
  "MakeDate day time = day * msPerDay + time"

text \<open>\<open>d.getDay()\<close>: 0 is Sunday, 6 is Saturday; day 0 (1970-01-01) was a Thursday.\<close>

definition getDay :: "int \<Rightarrow> instant \<Rightarrow> int" where
  "getDay tzo d = (Day (LocalTime tzo d) + 4) mod 7"

text \<open>\<open>d.setHours(h, m, 0, 0)\<close>: same local day, the given local time of day.\<close>

definition setHours :: "int \<Rightarrow> instant \<Rightarrow> int \<Rightarrow> int \<Rightarrow> instant" where
  "setHours tzo d h m =
     UTC tzo (MakeDate (Day (LocalTime tzo d)) (h * msPerHour + m * msPerMinute))"

subsection \<open>The time zone across its changes of offset\<close>

text \<open>
  A time zone with daylight saving: the offset of standard time, and the instants at
  which daylight saving, one hour more, starts (\<open>True\<close>) or ends (\<open>False\<close>), in
  ascending order; before the first of them standard time is in force.
\<close>

record zone =
  std_offset :: int
  dst_changes :: "(instant \<times> bool) list"

definition dst_at :: "zone \<Rightarrow> instant \<Rightarrow> bool" where
  "dst_at z t = foldl (\<lambda>b (c, f). if c \<le> t then f else b) False (dst_changes z)"

definition offset_at :: "zone \<Rightarrow> instant \<Rightarrow> int" where
  "offset_at z t = std_offset z + (if dst_at z t then msPerHour else 0)"

text \<open>
  The instant of a local time. A local time that a change of offset repeats or skips is
  read with the offset in force before the change, as ECMAScript does: the earlier of
  the two instants of a repeated time, and for a skipped time the instant one hour
  later on the clock.
\<close>

definition UTC_of_local :: "zone \<Rightarrow> int \<Rightarrow> instant" where
  "UTC_of_local z lt =
     (if dst_at z (lt - std_offset z - msPerHour) then lt - std_offset z - msPerHour
      else lt - std_offset z)"

text \<open>\<open>cur.setDate(cur.getDate() + 1)\<close>: the next local day, the same local time of day.\<close>

definition setDate_next :: "zone \<Rightarrow> instant \<Rightarrow> instant" where
  "setDate_next z cur =
     (let lt = LocalTime (offset_at z cur) cur
      in UTC_of_local z (MakeDate (Day lt + 1) (TimeWithinDay lt)))"




subsection \<open>Calendar dates and their \<open>YYYY-MM-DD\<close> text\<close>

text \<open>
  The proleptic Gregorian date (year, month, day of month) of a day number counted from
  1970-01-01. The text form is the one both \<open>dayjs(d).format('YYYY-MM-DD')\<close> and
  \<open>toISOString().slice(0, 10)\<close> produce for the years 0000 to 9999.
\<close>

definition civil_from_days :: "int \<Rightarrow> int \<times> int \<times> int" where
  "civil_from_days z0 =
     (let z = z0 + 719468;
          era = z div 146097;
          doe = z - era * 146097;
          yoe = (doe - doe div 1460 + doe div 36524 - doe div 146096) div 365;
          y = yoe + era * 400;
          doy = doe - (365 * yoe + yoe div 4 - yoe div 100);
          mp = (5 * doy + 2) div 153;
          d = doy - (153 * mp + 2) div 5 + 1;
          m = (if mp < 10 then mp + 3 else mp - 9)
      in (if m \<le> 2 then y + 1 else y, m, d))"

definition digit :: "nat \<Rightarrow> char" where
  "digit n = ''0123456789'' ! (n mod 10)"

definition pad2 :: "nat \<Rightarrow> string" where
  "pad2 n = [digit (n div 10), digit n]"

definition pad4 :: "nat \<Rightarrow> string" where
  "pad4 n = [digit (n div 1000), digit (n div 100), digit (n div 10), digit n]"

definition format_YYYY_MM_DD :: "int \<Rightarrow> string" where
  "format_YYYY_MM_DD day =
     (case civil_from_days day of
        (y, m, d) \<Rightarrow> pad4 (nat y) @ ''-'' @ pad2 (nat m) @ ''-'' @ pad2 (nat d))"

text \<open>\<open>const ymd = d => dayjs(d).format('YYYY-MM-DD')\<close>: the local calendar date.\<close>

definition ymd :: "int \<Rightarrow> instant \<Rightarrow> string" where
  "ymd tzo d = format_YYYY_MM_DD (Day (LocalTime tzo d))"

text \<open>\<open>d.toISOString().slice(0, 10)\<close>: the calendar date in UTC.\<close>

definition toISOString_date :: "instant \<Rightarrow> string" where
  "toISOString_date d = format_YYYY_MM_DD (Day d)"

text \<open>\<open>dayjs(d).format('dddd')\<close>: the English name of the local weekday.\<close>

definition format_dddd :: "int \<Rightarrow> instant \<Rightarrow> string" where
  "format_dddd tzo d =
     [''Sunday'', ''Monday'', ''Tuesday'', ''Wednesday'', ''Thursday'', ''Friday'', ''Saturday'']
       ! nat (getDay tzo d)"

section \<open>Data model\<close>

text \<open>The rotation labels \<open>'A'\<close> and \<open>'B'\<close>.\<close>

datatype rotation = DayA | DayB

text \<open>
  A bell row of \<open>schedule-data.json\<close>. Its \<open>start\<close> and \<open>end\<close> are texts \<open>H:M\<close>; a row
  holds the two numbers that \<open>hm.split(':').map(Number)\<close> reads from each. Its \<open>code\<close> is
  a text or an array of texts.
\<close>

datatype code = Label string | Codes "string list"

record bell_row =
  row_start :: "int \<times> int"
  row_end :: "int \<times> int"
  row_code :: code

record class_info =
  period :: string
  name :: string
  room :: string
  teacher :: string

text \<open>
  \<open>scheduleData\<close>. \<open>schoolStart\<close> and \<open>schoolEnd\<close> are the instants that
  \<open>new Date(scheduleData.schoolYear.start)\<close> and \<open>new Date(scheduleData.schoolYear.end)\<close>
  give; \<open>offDays\<close> are the texts of the configuration; \<open>classes_A\<close> and \<open>classes_B\<close> are
  \<open>classes.A\<close> and \<open>classes.B\<close>, empty when the key is missing.
\<close>

record schedule_data =
  schoolStart :: instant
  schoolEnd :: instant
  offDays :: "string list"
  regular :: "bell_row list"
  wednesday :: "bell_row list"
  classes_A :: "class_info list"
  classes_B :: "class_info list"

text \<open>
  An \<open>ICAL.Time\<close> as the importer uses it: the \<open>isDate\<close> flag and the instant that
  \<open>toJSDate()\<close> gives, which has whole seconds.
\<close>

record ical_time =
  isDate :: bool
  seconds :: int

definition toJSDate :: "ical_time \<Rightarrow> instant" where
  "toJSDate t = seconds t * 1000"

text \<open>An entry of \<open>allEvents\<close>; \<open>summary\<close> is \<open>None\<close> when the component has none.\<close>

record calendar_event =
  summary :: "string option"
  startDate :: ical_time
  endDate :: ical_time
  location :: string
  isAllDay :: bool

text \<open>
  The global variables the engine reads: \<open>scheduleData\<close> (\<open>None\<close> is \<open>null\<close>),
  \<open>calendarABDays\<close>, \<open>allCalendarEvents\<close>; and the browser's time zone: the offset
  \<open>tz_offset\<close> in force at the instant \<open>now\<close> of the computation, and the zone with
  its changes of offset.
\<close>

record env =
  tz_offset :: int
  time_zone :: zone
  scheduleData :: "schedule_data option"
  calendarABDays :: "string \<rightharpoonup> rotation"
  allCalendarEvents :: "calendar_event list"

text \<open>The engine at the instant \<open>t\<close>: the offset in force is the one the zone has at \<open>t\<close>.\<close>

definition at_instant :: "env \<Rightarrow> instant \<Rightarrow> env" where
  "at_instant e t = e\<lparr>tz_offset := offset_at (time_zone e) t\<rparr>"

section \<open>Calendar importer\<close>

text \<open>
  What the ical.js library hands to \<open>parseICSCalendar\<close>. \<open>ICAL.parse\<close>,
  \<open>new ICAL.Component\<close> and \<open>getAllSubcomponents\<close> either throw or give the list of
  event components. For each component the importer reads \<open>event.summary\<close>,
  \<open>event.startDate\<close>, \<open>event.endDate\<close> and \<open>event.location\<close>; a component with no
  \<open>DTSTART\<close> has \<open>startDate\<close> \<open>null\<close> (\<open>None\<close>), one with no \<open>SUMMARY\<close> or
  \<open>LOCATION\<close> has \<open>null\<close> there. \<open>event.endDate\<close> is the \<open>DTEND\<close> or else a time
  made from \<open>startDate\<close>, so it is a time whenever \<open>startDate\<close> is one.
\<close>

datatype js_error = ParserError | TypeError

record vevent =
  v_summary :: "string option"
  v_startDate :: "ical_time option"
  v_endDate :: ical_time
  v_location :: "string option"

record import_state =
  abDays :: "string \<rightharpoonup> rotation"
  allEvents :: "calendar_event list"

text \<open>
  The callback of \<open>vevents.forEach\<close>. Reading \<open>startDate.isDate\<close> of \<open>null\<close> throws a
  \<open>TypeError\<close> while the argument of \<open>allEvents.push\<close> is built, before anything is
  stored. (\<open>toISOString\<close> throws on an invalid date, inside the same \<open>try\<close> block;
  the dates of this model are valid.)
\<close>

definition import_vevent :: "import_state \<Rightarrow> vevent \<Rightarrow> js_error + import_state" where
  "import_vevent s v =
     (case v_startDate v of
        None \<Rightarrow> Inl TypeError
      | Some sd \<Rightarrow>
          let ev = \<lparr>summary = v_summary v, startDate = sd, endDate = v_endDate v,
                    location = (case v_location v of None \<Rightarrow> [] | Some l \<Rightarrow> l),
                    isAllDay = (if \<not> isDate sd then False else True)\<rparr>;
              s1 = s\<lparr>allEvents := allEvents s @ [ev]\<rparr>
          in if v_summary v = Some ''A Day'' \<or> v_summary v = Some ''B Day''
             then let dateStr = toISOString_date (toJSDate sd)
                  in Inr (s1\<lparr>abDays := (abDays s1)(dateStr \<mapsto>
                            (if v_summary v = Some ''A Day'' then DayA else DayB))\<rparr>)
             else Inr s1)"

text \<open>
  \<open>forEach\<close>: an exception of the callback ends the loop; what the earlier calls stored
  in \<open>abDays\<close> and \<open>allEvents\<close> stays there.
\<close>

fun forEach_vevents :: "import_state \<Rightarrow> vevent list \<Rightarrow> import_state \<times> js_error option" where
  "forEach_vevents s [] = (s, None)"
| "forEach_vevents s (v # vs) =
     (case import_vevent s v of
        Inl e \<Rightarrow> (s, Some e)
      | Inr s' \<Rightarrow> forEach_vevents s' vs)"

text \<open>
  The result of \<open>parseICSCalendar\<close>: \<open>{ abDays, allEvents }\<close>, and what the \<open>catch\<close> block
  wrote with \<open>console.error\<close>.
\<close>

record import_result =
  res_abDays :: "string \<rightharpoonup> rotation"
  res_allEvents :: "calendar_event list"
  logged :: "js_error option"

text \<open>
  \<open>parseICSCalendar\<close>, on the outcome \<open>parsed\<close> of the library calls for the feed text.
  The \<open>try\<close> block holds the library calls and the loop; \<open>Inl\<close> would be an exception
  that reaches the caller.
\<close>

definition try_block :: "js_error + vevent list \<Rightarrow> import_state \<times> js_error option" where
  "try_block parsed =
     (let s0 = \<lparr>abDays = Map.empty, allEvents = []\<rparr>
      in case parsed of
           Inl e \<Rightarrow> (s0, Some e)
         | Inr vevents \<Rightarrow> forEach_vevents s0 vevents)"

definition parseICSCalendar :: "js_error + vevent list \<Rightarrow> js_error + import_result" where
  "parseICSCalendar parsed =
     (case try_block parsed of
        (s, err) \<Rightarrow> Inr \<lparr>res_abDays = abDays s, res_allEvents = allEvents s, logged = err\<rparr>)"

section \<open>Day classifier\<close>

definition isWeekend :: "int \<Rightarrow> instant \<Rightarrow> bool" where
  "isWeekend tzo d = (let x = getDay tzo d in x = 0 \<or> x = 6)"

definition isSchoolDay :: "env \<Rightarrow> instant \<Rightarrow> bool" where
  "isSchoolDay e d =
     (case scheduleData e of
        None \<Rightarrow> False
      | Some sd \<Rightarrow>
          d \<ge> schoolStart sd \<and> d \<le> schoolEnd sd \<and> \<not> isWeekend (tz_offset e) d
          \<and> ymd (tz_offset e) d \<notin> set (offDays sd))"

text \<open>
  The \<open>while (cur <= d)\<close> loop of \<open>getABDay\<close>. \<open>isSchoolDay(cur)\<close> sees \<open>cur\<close> with the
  offset in force at \<open>cur\<close>.
\<close>

function count_loop :: "env \<Rightarrow> instant \<Rightarrow> instant \<Rightarrow> nat \<Rightarrow> nat" where
  "count_loop e d cur count' =
     (if cur \<le> d
      then count_loop e d (setDate_next (time_zone e) cur)
             (if isSchoolDay (at_instant e cur) cur then count' + 1 else count')
      else count')"
  by pat_completeness auto
termination
proof (relation "measure (\<lambda>(e, d, cur, count'). nat (d + 1 - cur))")
  show "wf (measure (\<lambda>(e, d, cur, count'). nat (d + 1 - cur)))" by simp
next
  fix e :: env and d cur :: instant and count' :: nat
  assume le: "cur \<le> d"
  define z where "z = time_zone e"
  define lt where "lt = LocalTime (offset_at z cur) cur"
  have "Day lt * msPerDay + TimeWithinDay lt = lt"
    unfolding Day_def TimeWithinDay_def by (rule div_mult_mod_eq)
  then have next_lt: "MakeDate (Day lt + 1) (TimeWithinDay lt) = lt + msPerDay"
    by (simp add: MakeDate_def algebra_simps)
  have "cur + std_offset z \<le> lt"
    by (simp add: lt_def LocalTime_def offset_at_def)
  moreover have "lt + msPerDay - std_offset z - msPerHour
      \<le> UTC_of_local z (lt + msPerDay)"
    by (simp add: UTC_of_local_def)
  ultimately have "cur < setDate_next z cur"
    by (simp add: setDate_next_def lt_def [symmetric] next_lt Let_def)
  then show "((e, d, setDate_next (time_zone e) cur,
        if isSchoolDay (at_instant e cur) cur then count' + 1 else count'),
      (e, d, cur, count')) \<in> measure (\<lambda>(e, d, cur, count'). nat (d + 1 - cur))"
    using le by (simp add: z_def)
qed

declare count_loop.simps [simp del]

definition getABDay :: "env \<Rightarrow> instant \<Rightarrow> rotation option" where
  "getABDay e now =
     (let d = now in
      if \<not> isSchoolDay e d then None
      else case scheduleData e of
        None \<Rightarrow> None
      | Some sd \<Rightarrow>
          let dateStr = ymd (tz_offset e) d in
          case calendarABDays e dateStr of
            Some r \<Rightarrow> Some r
          | None \<Rightarrow>
              let count' = count_loop e d (schoolStart sd) 0
              in if count' mod 2 = 1 then Some DayA else Some DayB)"

section \<open>Schedule selector\<close>

definition isWednesday :: "env \<Rightarrow> instant \<Rightarrow> bool" where
  "isWednesday e now = (format_dddd (tz_offset e) now = ''Wednesday'')"

definition todaySchedule :: "env \<Rightarrow> instant \<Rightarrow> bell_row list" where
  "todaySchedule e now =
     (case scheduleData e of
        None \<Rightarrow> []
      | Some sd \<Rightarrow> if isWednesday e now then wednesday sd else regular sd)"

section \<open>Period matcher\<close>

definition parseTime :: "env \<Rightarrow> instant \<Rightarrow> int \<times> int \<Rightarrow> instant" where
  "parseTime e now hm = (case hm of (h, m) \<Rightarrow> setHours (tz_offset e) now h m)"

definition classesForDay :: "env \<Rightarrow> instant \<Rightarrow> class_info list" where
  "classesForDay e now =
     (case getABDay e now of
        None \<Rightarrow> []
      | Some ab \<Rightarrow>
          (case scheduleData e of
             None \<Rightarrow> []
           | Some sd \<Rightarrow> (case ab of DayA \<Rightarrow> classes_A sd | DayB \<Rightarrow> classes_B sd)))"

definition findClassByPeriod :: "env \<Rightarrow> instant \<Rightarrow> string \<Rightarrow> class_info option" where
  "findClassByPeriod e now p = find (\<lambda>c. period c = p) (classesForDay e now)"

text \<open>\<open>arr[i]\<close>: \<open>undefined\<close> (\<open>None\<close>) beyond the end of the array.\<close>

definition at_index :: "'a list \<Rightarrow> nat \<Rightarrow> 'a option" where
  "at_index arr i = (if i < length arr then Some (arr ! i) else None)"

definition labelFromCode :: "env \<Rightarrow> instant \<Rightarrow> string list \<Rightarrow> string option" where
  "labelFromCode e now arr =
     (if at_index arr 0 = Some ''LUNCH'' then at_index arr 0
      else let ab = (case getABDay e now of None \<Rightarrow> DayA | Some r \<Rightarrow> r)
           in if ab = DayA then at_index arr 0 else at_index arr 1)"

definition getCurrent :: "env \<Rightarrow> instant \<Rightarrow> bell_row option" where
  "getCurrent e now =
     (let schedule = todaySchedule e now
      in find (\<lambda>row. let start = parseTime e now (row_start row);
                         end = parseTime e now (row_end row)
                     in now \<ge> start \<and> now \<le> end) schedule)"

definition getNext :: "env \<Rightarrow> instant \<Rightarrow> bell_row option" where
  "getNext e now = find (\<lambda>row. parseTime e now (row_start row) > now) (todaySchedule e now)"

text \<open>
  \<open>buildPeriodStructure\<close>. \<open>/^A|^B/.test(label)\<close> holds when the label starts with \<open>A\<close>
  or \<open>B\<close>; an \<open>undefined\<close> label is tested as the text \<open>undefined\<close> and fails.
\<close>

record period_item =
  item_row :: bell_row
  item_start :: instant
  item_end :: instant
  item_label :: "string option"
  item_info :: "class_info option"

datatype period_structure = NoSchool | Periods "period_item list"

definition row_label :: "env \<Rightarrow> instant \<Rightarrow> bell_row \<Rightarrow> string option" where
  "row_label e now row =
     (case row_code row of Codes arr \<Rightarrow> labelFromCode e now arr | Label l \<Rightarrow> Some l)"

definition starts_A_or_B :: "string option \<Rightarrow> bool" where
  "starts_A_or_B label =
     (case label of
        Some (c # cs) \<Rightarrow> c = CHR ''A'' \<or> c = CHR ''B''
      | _ \<Rightarrow> False)"

definition period_item_of :: "env \<Rightarrow> instant \<Rightarrow> bell_row \<Rightarrow> period_item" where
  "period_item_of e now row =
     (let start = parseTime e now (row_start row);
          end = parseTime e now (row_end row);
          label = row_label e now row;
          info = (if starts_A_or_B label
                  then (case label of None \<Rightarrow> None | Some l \<Rightarrow> findClassByPeriod e now l)
                  else None)
      in \<lparr>item_row = row, item_start = start, item_end = end,
          item_label = label, item_info = info\<rparr>)"

definition buildPeriodStructure :: "env \<Rightarrow> instant \<Rightarrow> period_structure" where
  "buildPeriodStructure e now =
     (let sched = todaySchedule e now;
          ab = getABDay e now
      in if ab = None then NoSchool
         else Periods (map (period_item_of e now) sched))"

section \<open>Event resolver\<close>




section \<open>Loading the calendar\<close>

text \<open>
  The calendar part of \<open>loadScheduleData\<close>: the two results of \<open>parseICSCalendar\<close>
  become \<open>calendarABDays\<close> and \<open>allCalendarEvents\<close>; an exception would leave both as
  they were.
\<close>

definition load_calendar :: "env \<Rightarrow> js_error + vevent list \<Rightarrow> env" where
  "load_calendar e parsed =
     (case parseICSCalendar parsed of
        Inl err \<Rightarrow> e
      | Inr r \<Rightarrow> e\<lparr>calendarABDays := res_abDays r, allCalendarEvents := res_allEvents r\<rparr>)"

section \<open>Notions of the specification\<close>

text \<open>The local calendar date of an instant, as a day number, and its local time of day.\<close>

definition local_date :: "env \<Rightarrow> instant \<Rightarrow> int" where
  "local_date e d = Day (LocalTime (tz_offset e) d)"

definition time_of_day :: "env \<Rightarrow> instant \<Rightarrow> int" where
  "time_of_day e d = TimeWithinDay (LocalTime (tz_offset e) d)"

text \<open>The time of day \<open>H:M\<close> of a bell row, in milliseconds after local midnight.\<close>

definition hm_ms :: "int \<times> int \<Rightarrow> int" where
  "hm_ms hm = (case hm of (h, m) \<Rightarrow> h * msPerHour + m * msPerMinute)"

text \<open>\<open>row.start <= now <= row.end\<close>, both ends included, on times of day.\<close>

definition within_row :: "env \<Rightarrow> instant \<Rightarrow> bell_row \<Rightarrow> bool" where
  "within_row e now row =
     (hm_ms (row_start row) \<le> time_of_day e now \<and> time_of_day e now \<le> hm_ms (row_end row))"

text \<open>
  A calendar date that is a school date whatever the time of day: not a Saturday or a
  Sunday, and its text not among the off days.
\<close>

definition weekday_of_date :: "int \<Rightarrow> int" where
  "weekday_of_date k = (k + 4) mod 7"

definition school_date :: "env \<Rightarrow> int \<Rightarrow> bool" where
  "school_date e k =
     (case scheduleData e of
        None \<Rightarrow> False
      | Some sd \<Rightarrow> weekday_of_date k \<noteq> 0 \<and> weekday_of_date k \<noteq> 6
                 \<and> format_YYYY_MM_DD k \<notin> set (offDays sd))"

text \<open>
  The local calendar date and the local time of day of an instant, with the offset the
  zone has at that instant.
\<close>

definition zone_date :: "env \<Rightarrow> instant \<Rightarrow> int" where
  "zone_date e t = Day (LocalTime (offset_at (time_zone e) t) t)"

definition zone_time_of_day :: "env \<Rightarrow> instant \<Rightarrow> int" where
  "zone_time_of_day e t = TimeWithinDay (LocalTime (offset_at (time_zone e) t) t)"

text \<open>
  The number of school dates among the calendar dates from the date of
  \<open>config.start\<close> to the date of \<open>d\<close>, both included.
\<close>

definition school_days_upto :: "env \<Rightarrow> instant \<Rightarrow> nat" where
  "school_days_upto e d =
     (case scheduleData e of
        None \<Rightarrow> 0
      | Some sd \<Rightarrow>
          length (filter (school_date e) [zone_date e (schoolStart sd) .. zone_date e d]))"

text \<open>
  A time of day that no change of offset of the zone skips or repeats: it is not in the
  hour of standard time that starts at a change.
\<close>

definition clock_change_free :: "zone \<Rightarrow> int \<Rightarrow> bool" where
  "clock_change_free z tod =
     list_all (\<lambda>(c, f). msPerHour \<le> (tod - (c + std_offset z)) mod msPerDay) (dst_changes z)"


section \<open>Example data\<close>

text \<open>
  \<open>new Date(y, mo - 1, d, h, mi, s)\<close>, which is also what \<open>new Date\<close> makes of the text
  \<open>y-mo-dTh:mi:s\<close>: the instant of that local date and time.
\<close>

definition days_from_civil :: "int \<Rightarrow> int \<Rightarrow> int \<Rightarrow> int" where
  "days_from_civil y0 m d =
     (let y = (if m \<le> 2 then y0 - 1 else y0);
          era = y div 400;
          yoe = y - era * 400;
          doy = (153 * (if m > 2 then m - 3 else m + 9) + 2) div 5 + d - 1;
          doe = yoe * 365 + yoe div 4 - yoe div 100 + doy
      in era * 146097 + doe - 719468)"

definition new_Date :: "int \<Rightarrow> int \<Rightarrow> int \<Rightarrow> int \<Rightarrow> int \<Rightarrow> int \<Rightarrow> int \<Rightarrow> instant" where
  "new_Date tzo y mo d h mi s =
     UTC tzo (MakeDate (days_from_civil y mo d) (h * msPerHour + mi * msPerMinute + s * 1000))"

text \<open>
  America/Denver: Mountain Standard Time, seven hours behind UTC, with daylight saving
  from 2025-03-09 to 2025-11-02 and from 2026-03-08 to 2026-11-01; the changes are at
  02:00 on the local clock. Mountain Daylight Time is six hours behind UTC.
\<close>

definition denver :: zone where
  "denver =
     \<lparr>std_offset = - 7 * msPerHour,
      dst_changes =
        [(new_Date 0 2025 3 9 9 0 0, True), (new_Date 0 2025 11 2 8 0 0, False),
         (new_Date 0 2026 3 8 9 0 0, True), (new_Date 0 2026 11 1 8 0 0, False)]\<rparr>"

definition mdt :: int where
  "mdt = - 6 * msPerHour"

text \<open>
  A configuration with the school year of the fallback of \<open>loadScheduleData\<close>, one off
  day, and short bell tables.
\<close>

definition year_2025 :: schedule_data where
  "year_2025 =
     \<lparr>schoolStart = new_Date mdt 2025 8 13 0 0 0,
      schoolEnd = new_Date mdt 2026 5 22 23 59 59,
      offDays = [''2025-09-01''],
      regular =
        [\<lparr>row_start = (7, 45), row_end = (9, 4), row_code = Codes [''A1'', ''B1'']\<rparr>,
         \<lparr>row_start = (9, 14), row_end = (10, 33), row_code = Codes [''A2'', ''B2'']\<rparr>,
         \<lparr>row_start = (12, 0), row_end = (12, 35), row_code = Label ''LUNCH''\<rparr>],
      wednesday =
        [\<lparr>row_start = (9, 0), row_end = (9, 4), row_code = Codes [''A1'', ''B1'']\<rparr>,
         \<lparr>row_start = (9, 10), row_end = (10, 10), row_code = Codes [''A2'', ''B2'']\<rparr>],
      classes_A = [\<lparr>period = ''A1'', name = ''Physics'', room = ''204'', teacher = ''R. Lee''\<rparr>],
      classes_B = [\<lparr>period = ''B1'', name = ''History'', room = ''117'', teacher = ''M. Ortiz''\<rparr>]\<rparr>"

definition engine :: env where
  "engine =
     \<lparr>tz_offset = mdt, time_zone = denver, scheduleData = Some year_2025,
      calendarABDays = Map.empty, allCalendarEvents = []\<rparr>"

definition row_0900 :: bell_row where
  "row_0900 = \<lparr>row_start = (9, 0), row_end = (9, 4), row_code = Codes [''A1'', ''B1'']\<rparr>"

text \<open>The same engine with a calendar that marks 2025-08-13 as a B day.\<close>

definition engine_B :: env where
  "engine_B = engine\<lparr>calendarABDays := [''2025-08-13'' \<mapsto> DayB]\<rparr>"

text \<open>
  A configuration whose school year starts at 08:00 on 2025-08-13 instead of midnight.
\<close>

definition year_from_0800 :: schedule_data where
  "year_from_0800 = year_2025\<lparr>schoolStart := new_Date mdt 2025 8 13 8 0 0\<rparr>"

definition engine_0800 :: env where
  "engine_0800 = engine\<lparr>scheduleData := Some year_from_0800\<rparr>"







text \<open>
  Event components of a feed: an all-day A day on 2025-08-13 and a timed meeting, both
  with a \<open>DTSTART\<close>, and a component with none.
\<close>

definition vevent_A_day :: vevent where
  "vevent_A_day =
     \<lparr>v_summary = Some ''A Day'',
      v_startDate = Some \<lparr>isDate = True, seconds = new_Date mdt 2025 8 13 0 0 0 div 1000\<rparr>,
      v_endDate = \<lparr>isDate = True, seconds = new_Date mdt 2025 8 14 0 0 0 div 1000\<rparr>,
      v_location = None\<rparr>"

definition vevent_meeting :: vevent where
  "vevent_meeting =
     \<lparr>v_summary = Some ''Staff meeting'',
      v_startDate = Some \<lparr>isDate = False, seconds = new_Date mdt 2025 8 13 15 0 0 div 1000\<rparr>,
      v_endDate = \<lparr>isDate = False, seconds = new_Date mdt 2025 8 13 16 0 0 div 1000\<rparr>,
      v_location = Some ''Library''\<rparr>"

definition vevent_no_start :: vevent where
  "vevent_no_start =
     \<lparr>v_summary = Some ''Untimed'',
      v_startDate = None,
      v_endDate = \<lparr>isDate = False, seconds = new_Date mdt 2025 8 13 16 0 0 div 1000\<rparr>,
      v_location = None\<rparr>"

text \<open>The events and the calendar entries that reach the caller, whatever else does.\<close>

definition imported_events :: "js_error + import_result \<Rightarrow> calendar_event list" where
  "imported_events r = (case r of Inl err \<Rightarrow> [] | Inr x \<Rightarrow> res_allEvents x)"

definition imported_abDays :: "js_error + import_result \<Rightarrow> string \<rightharpoonup> rotation" where
  "imported_abDays r = (case r of Inl err \<Rightarrow> Map.empty | Inr x \<Rightarrow> res_abDays x)"

definition imported_log :: "js_error + import_result \<Rightarrow> js_error option" where
  "imported_log r = (case r of Inl err \<Rightarrow> None | Inr x \<Rightarrow> logged x)"

text \<open>A lunch row whose code is a pair.\<close>

definition lunch_row :: bell_row where
  "lunch_row = \<lparr>row_start = (12, 0), row_end = (12, 35), row_code = Codes [''LUNCH'', ''B5'']\<rparr>"

text \<open>A configuration whose school year ends at 15:00 on 2026-05-22.\<close>

definition year_until_1500 :: schedule_data where
  "year_until_1500 = year_2025\<lparr>schoolEnd := new_Date mdt 2026 5 22 15 0 0\<rparr>"

definition engine_1500 :: env where
  "engine_1500 = engine\<lparr>scheduleData := Some year_until_1500\<rparr>"

text \<open>
  Central European Summer Time, two hours ahead of UTC, in the zone Europe/Berlin; the
  same school year seen from a browser there, and a feed with an all-day A day on 2025-08-14. In Mountain Daylight
  Time, a feed with an A day of 2025-08-14 that starts at 18:30.
\<close>

definition cest :: int where
  "cest = 2 * msPerHour"

definition berlin :: zone where
  "berlin =
     \<lparr>std_offset = msPerHour,
      dst_changes =
        [(new_Date 0 2025 3 30 1 0 0, True), (new_Date 0 2025 10 26 1 0 0, False),
         (new_Date 0 2026 3 29 1 0 0, True), (new_Date 0 2026 10 25 1 0 0, False)]\<rparr>"

definition engine_cest :: env where
  "engine_cest =
     \<lparr>tz_offset = cest, time_zone = berlin,
      scheduleData = Some (year_2025\<lparr>schoolStart := new_Date cest 2025 8 13 0 0 0,
                                     schoolEnd := new_Date cest 2026 5 22 23 59 59\<rparr>),
      calendarABDays = Map.empty, allCalendarEvents = []\<rparr>"

definition vevent_A_day_cest :: vevent where
  "vevent_A_day_cest =
     \<lparr>v_summary = Some ''A Day'',
      v_startDate = Some \<lparr>isDate = True, seconds = new_Date cest 2025 8 14 0 0 0 div 1000\<rparr>,
      v_endDate = \<lparr>isDate = True, seconds = new_Date cest 2025 8 15 0 0 0 div 1000\<rparr>,
      v_location = None\<rparr>"

definition vevent_A_day_evening :: vevent where
  "vevent_A_day_evening =
     \<lparr>v_summary = Some ''A Day'',
      v_startDate = Some \<lparr>isDate = False, seconds = new_Date mdt 2025 8 14 18 30 0 div 1000\<rparr>,
      v_endDate = \<lparr>isDate = False, seconds = new_Date mdt 2025 8 14 19 30 0 div 1000\<rparr>,
      v_location = None\<rparr>"

section \<open>Facts about dates\<close>

lemma instant_split:
  "d = UTC tzo (MakeDate (Day (LocalTime tzo d)) (TimeWithinDay (LocalTime tzo d)))"
  by (simp add: UTC_def MakeDate_def Day_def TimeWithinDay_def LocalTime_def)

lemma getDay_range: "0 \<le> getDay tzo d \<and> getDay tzo d < 7"
  by (simp add: getDay_def)

lemma getDay_cases:
  "getDay tzo d = 0 \<or> getDay tzo d = 1 \<or> getDay tzo d = 2 \<or> getDay tzo d = 3
   \<or> getDay tzo d = 4 \<or> getDay tzo d = 5 \<or> getDay tzo d = 6"
  using getDay_range [of tzo d] by arith

lemma format_dddd_Wednesday: "format_dddd tzo d = ''Wednesday'' \<longleftrightarrow> getDay tzo d = 3"
  using getDay_cases [of tzo d] by (auto simp: format_dddd_def)

lemma format_dddd_Saturday: "format_dddd tzo d = ''Saturday'' \<longleftrightarrow> getDay tzo d = 6"
  using getDay_cases [of tzo d] by (auto simp: format_dddd_def)

lemma format_dddd_Sunday: "format_dddd tzo d = ''Sunday'' \<longleftrightarrow> getDay tzo d = 0"
  using getDay_cases [of tzo d] by (auto simp: format_dddd_def)

section \<open>Period matcher: the current period\<close>

lemma parseTime_le_now:
  "parseTime e now hm \<le> now \<longleftrightarrow> hm_ms hm \<le> time_of_day e now"
proof -
  obtain h m where hm: "hm = (h, m)" by (cases hm)
  have "now = UTC (tz_offset e) (MakeDate (Day (LocalTime (tz_offset e) now)) (time_of_day e now))"
    unfolding time_of_day_def by (rule instant_split)
  then show ?thesis
    unfolding hm parseTime_def setHours_def hm_ms_def UTC_def MakeDate_def prod.case
    by linarith
qed

lemma now_le_parseTime:
  "now \<le> parseTime e now hm \<longleftrightarrow> time_of_day e now \<le> hm_ms hm"
proof -
  obtain h m where hm: "hm = (h, m)" by (cases hm)
  have "now = UTC (tz_offset e) (MakeDate (Day (LocalTime (tz_offset e) now)) (time_of_day e now))"
    unfolding time_of_day_def by (rule instant_split)
  then show ?thesis
    unfolding hm parseTime_def setHours_def hm_ms_def UTC_def MakeDate_def prod.case
    by linarith
qed

lemma getCurrent_find: "getCurrent e now = find (within_row e now) (todaySchedule e now)"
  by (simp add: getCurrent_def within_row_def [abs_def] parseTime_le_now now_le_parseTime Let_def)

text \<open>
  Claim C1. The current period is the first row of the selected table, in table order,
  whose start and end times of day enclose the time of day of \<open>now\<close>, both ends
  included; there is none exactly when no row encloses it. For a row from 09:00 to 09:04,
  the instants 09:00:00 and 09:04:00 are within the row and 09:04:01 is not.
\<close>

theorem getCurrent_first_inclusive:
  "(getCurrent e now = Some r \<longleftrightarrow>
      (\<exists>i < length (todaySchedule e now). todaySchedule e now ! i = r \<and> within_row e now r
          \<and> (\<forall>j < i. \<not> within_row e now (todaySchedule e now ! j))))
   \<and> (getCurrent e now = None \<longleftrightarrow> (\<forall>r \<in> set (todaySchedule e now). \<not> within_row e now r))
   \<and> (row_start r = (9, 0) \<and> row_end r = (9, 4) \<longrightarrow>
        (time_of_day e now = 9 * msPerHour \<longrightarrow> within_row e now r)
      \<and> (time_of_day e now = 9 * msPerHour + 4 * msPerMinute \<longrightarrow> within_row e now r)
      \<and> (time_of_day e now = 9 * msPerHour + 4 * msPerMinute + 1000 \<longrightarrow> \<not> within_row e now r))"
proof (intro conjI)
  show "getCurrent e now = Some r \<longleftrightarrow>
      (\<exists>i < length (todaySchedule e now). todaySchedule e now ! i = r \<and> within_row e now r
          \<and> (\<forall>j < i. \<not> within_row e now (todaySchedule e now ! j)))"
    unfolding getCurrent_find find_Some_iff by blast
  show "getCurrent e now = None \<longleftrightarrow> (\<forall>r \<in> set (todaySchedule e now). \<not> within_row e now r)"
    unfolding getCurrent_find find_None_iff by blast
  show "row_start r = (9, 0) \<and> row_end r = (9, 4) \<longrightarrow>
        (time_of_day e now = 9 * msPerHour \<longrightarrow> within_row e now r)
      \<and> (time_of_day e now = 9 * msPerHour + 4 * msPerMinute \<longrightarrow> within_row e now r)
      \<and> (time_of_day e now = 9 * msPerHour + 4 * msPerMinute + 1000 \<longrightarrow> \<not> within_row e now r)"
    by (simp add: within_row_def hm_ms_def)
qed

text \<open>
  On Wednesday 2025-09-03 at 09:04:00 the row from 09:00 to 09:04 of the Wednesday table
  is current; one second later it is not within the row.
\<close>

theorem getCurrent_first_inclusive_witness:
  "row_start row_0900 = (9, 0) \<and> row_end row_0900 = (9, 4)
   \<and> time_of_day engine (new_Date mdt 2025 9 3 9 4 0) = 9 * msPerHour + 4 * msPerMinute
   \<and> time_of_day engine (new_Date mdt 2025 9 3 9 4 1) = 9 * msPerHour + 4 * msPerMinute + 1000
   \<and> getCurrent engine (new_Date mdt 2025 9 3 9 4 0) = Some row_0900
   \<and> \<not> within_row engine (new_Date mdt 2025 9 3 9 4 1) row_0900"
proof -
  have r: "row_start row_0900 = (9, 0) \<and> row_end row_0900 = (9, 4)"
    by (simp add: row_0900_def)
  have t0: "time_of_day engine (new_Date mdt 2025 9 3 9 4 0) = 9 * msPerHour + 4 * msPerMinute"
    by code_simp
  have t1: "time_of_day engine (new_Date mdt 2025 9 3 9 4 1)
      = 9 * msPerHour + 4 * msPerMinute + 1000"
    by code_simp
  have tbl: "todaySchedule engine (new_Date mdt 2025 9 3 9 4 0) ! 0 = row_0900
      \<and> 0 < length (todaySchedule engine (new_Date mdt 2025 9 3 9 4 0))"
    by code_simp
  have w0: "within_row engine (new_Date mdt 2025 9 3 9 4 0) row_0900"
    using getCurrent_first_inclusive [of engine "new_Date mdt 2025 9 3 9 4 0" row_0900] r t0
    by blast
  have w1: "\<not> within_row engine (new_Date mdt 2025 9 3 9 4 1) row_0900"
    using getCurrent_first_inclusive [of engine "new_Date mdt 2025 9 3 9 4 1" row_0900] r t1
    by blast
  have "\<exists>i < length (todaySchedule engine (new_Date mdt 2025 9 3 9 4 0)).
      todaySchedule engine (new_Date mdt 2025 9 3 9 4 0) ! i = row_0900
      \<and> within_row engine (new_Date mdt 2025 9 3 9 4 0) row_0900
      \<and> (\<forall>j < i. \<not> within_row engine (new_Date mdt 2025 9 3 9 4 0)
              (todaySchedule engine (new_Date mdt 2025 9 3 9 4 0) ! j))"
    using tbl w0 by (intro exI [of _ 0]) simp
  then have cur: "getCurrent engine (new_Date mdt 2025 9 3 9 4 0) = Some row_0900"
    using getCurrent_first_inclusive [of engine "new_Date mdt 2025 9 3 9 4 0" row_0900]
    by blast
  show ?thesis using r t0 t1 cur w1 by blast
qed

section \<open>Day classifier: school days\<close>

text \<open>
  Claim C2. With a configuration loaded, an instant is a school day exactly when it lies
  between \<open>config.start\<close> and \<open>config.end\<close>, both included, its local weekday is
  neither Saturday nor Sunday, and the text of its local date is not among the off days;
  for an instant outside the range, on a weekend or on an off day the rotation is
  \<open>null\<close>.
\<close>

theorem isSchoolDay_iff:
  assumes "scheduleData e = Some sd"
  shows "(isSchoolDay e d \<longleftrightarrow>
           schoolStart sd \<le> d \<and> d \<le> schoolEnd sd
           \<and> format_dddd (tz_offset e) d \<noteq> ''Saturday'' \<and> format_dddd (tz_offset e) d \<noteq> ''Sunday''
           \<and> ymd (tz_offset e) d \<notin> set (offDays sd))
         \<and> (d < schoolStart sd \<or> schoolEnd sd < d
             \<or> format_dddd (tz_offset e) d = ''Saturday'' \<or> format_dddd (tz_offset e) d = ''Sunday''
             \<or> ymd (tz_offset e) d \<in> set (offDays sd)
            \<longrightarrow> \<not> isSchoolDay e d \<and> getABDay e d = None)"
  using assms
  by (auto simp: isSchoolDay_def getABDay_def isWeekend_def format_dddd_Saturday
      format_dddd_Sunday Let_def)

text \<open>
  Wednesday 2025-08-13 at 07:50 is a school day; Saturday 2025-08-16, the off day
  2025-09-01 and 2025-08-12, before the start, have no rotation.
\<close>

theorem isSchoolDay_iff_witness:
  "scheduleData engine = Some year_2025
   \<and> isSchoolDay engine (new_Date mdt 2025 8 13 7 50 0)
   \<and> format_dddd mdt (new_Date mdt 2025 8 16 10 0 0) = ''Saturday''
   \<and> getABDay engine (new_Date mdt 2025 8 16 10 0 0) = None
   \<and> ymd mdt (new_Date mdt 2025 9 1 10 0 0) \<in> set (offDays year_2025)
   \<and> getABDay engine (new_Date mdt 2025 9 1 10 0 0) = None
   \<and> new_Date mdt 2025 8 12 10 0 0 < schoolStart year_2025
   \<and> getABDay engine (new_Date mdt 2025 8 12 10 0 0) = None"
proof -
  have sd: "scheduleData engine = Some year_2025" by (simp add: engine_def)
  have tz: "tz_offset engine = mdt" by (simp add: engine_def)
  have a: "schoolStart year_2025 \<le> new_Date mdt 2025 8 13 7 50 0
      \<and> new_Date mdt 2025 8 13 7 50 0 \<le> schoolEnd year_2025
      \<and> format_dddd mdt (new_Date mdt 2025 8 13 7 50 0) \<noteq> ''Saturday''
      \<and> format_dddd mdt (new_Date mdt 2025 8 13 7 50 0) \<noteq> ''Sunday''
      \<and> ymd mdt (new_Date mdt 2025 8 13 7 50 0) \<notin> set (offDays year_2025)"
    by code_simp
  have sat: "format_dddd mdt (new_Date mdt 2025 8 16 10 0 0) = ''Saturday''" by code_simp
  have off: "ymd mdt (new_Date mdt 2025 9 1 10 0 0) \<in> set (offDays year_2025)" by code_simp
  have early: "new_Date mdt 2025 8 12 10 0 0 < schoolStart year_2025" by code_simp
  show ?thesis
    using isSchoolDay_iff [OF sd, of "new_Date mdt 2025 8 13 7 50 0"]
      isSchoolDay_iff [OF sd, of "new_Date mdt 2025 8 16 10 0 0"]
      isSchoolDay_iff [OF sd, of "new_Date mdt 2025 9 1 10 0 0"]
      isSchoolDay_iff [OF sd, of "new_Date mdt 2025 8 12 10 0 0"]
      sd a sat off early
    unfolding tz by blast
qed

section \<open>Day classifier: the calendar override\<close>

text \<open>
  Claim C4. On a school day whose date has an entry in \<open>calendarABDays\<close>, \<open>getABDay\<close>
  returns that entry, whatever the count of school days would give.
\<close>

theorem getABDay_override:
  assumes "isSchoolDay e d" and "calendarABDays e (ymd (tz_offset e) d) = Some r"
  shows "getABDay e d = Some r"
  using assms by (auto simp: getABDay_def isSchoolDay_def Let_def split: option.splits)

text \<open>
  2025-08-13 is the first school day, an A day by count; with the calendar entry B it is
  a B day.
\<close>

theorem getABDay_override_witness:
  "isSchoolDay engine_B (new_Date mdt 2025 8 13 7 50 0)
   \<and> calendarABDays engine_B (ymd (tz_offset engine_B) (new_Date mdt 2025 8 13 7 50 0)) = Some DayB
   \<and> getABDay engine (new_Date mdt 2025 8 13 7 50 0) = Some DayA
   \<and> getABDay engine_B (new_Date mdt 2025 8 13 7 50 0) = Some DayB"
proof -
  have a: "isSchoolDay engine_B (new_Date mdt 2025 8 13 7 50 0)" by code_simp
  have b: "calendarABDays engine_B (ymd (tz_offset engine_B) (new_Date mdt 2025 8 13 7 50 0))
      = Some DayB" by code_simp
  have c: "getABDay engine (new_Date mdt 2025 8 13 7 50 0) = Some DayA" by code_simp
  show ?thesis using getABDay_override [OF a b] a b c by simp
qed

section \<open>Schedule selector\<close>

text \<open>
  Claim C8. With a configuration loaded, \<open>todaySchedule\<close> is the Wednesday table when
  the local weekday of the instant is Wednesday (day 3) and the regular table otherwise;
  two calls with the same tables and the same weekday give the same table, whatever the
  school year, the off days and the calendar.
\<close>

theorem todaySchedule_weekday_only:
  assumes "scheduleData e = Some sd"
  shows "todaySchedule e now = (if getDay (tz_offset e) now = 3 then wednesday sd else regular sd)
    \<and> (\<forall>e' sd' now'. scheduleData e' = Some sd' \<and> wednesday sd' = wednesday sd
          \<and> regular sd' = regular sd \<and> getDay (tz_offset e') now' = getDay (tz_offset e) now
        \<longrightarrow> todaySchedule e' now' = todaySchedule e now)"
  using assms by (simp add: todaySchedule_def isWednesday_def format_dddd_Wednesday)

text \<open>
  Wednesday 2025-08-06 is before the school year, so not a school day, and still gets
  the Wednesday table, the one of the school day Wednesday 2025-09-03; Tuesday
  2025-09-02 gets the regular table.
\<close>

theorem todaySchedule_weekday_only_witness:
  "scheduleData engine = Some year_2025
   \<and> getDay (tz_offset engine) (new_Date mdt 2025 8 6 10 0 0) = 3
   \<and> \<not> isSchoolDay engine (new_Date mdt 2025 8 6 10 0 0)
   \<and> todaySchedule engine (new_Date mdt 2025 8 6 10 0 0) = wednesday year_2025
   \<and> todaySchedule engine (new_Date mdt 2025 9 3 10 0 0)
       = todaySchedule engine (new_Date mdt 2025 8 6 10 0 0)
   \<and> todaySchedule engine (new_Date mdt 2025 9 2 10 0 0) = regular year_2025"
proof -
  have sd: "scheduleData engine = Some year_2025" by (simp add: engine_def)
  have w1: "getDay (tz_offset engine) (new_Date mdt 2025 8 6 10 0 0) = 3" by code_simp
  have w2: "getDay (tz_offset engine) (new_Date mdt 2025 9 3 10 0 0) = 3" by code_simp
  have tu: "getDay (tz_offset engine) (new_Date mdt 2025 9 2 10 0 0) = 2" by code_simp
  have ns: "\<not> isSchoolDay engine (new_Date mdt 2025 8 6 10 0 0)" by code_simp
  have same: "todaySchedule engine (new_Date mdt 2025 9 3 10 0 0)
       = todaySchedule engine (new_Date mdt 2025 8 6 10 0 0)"
    using todaySchedule_weekday_only [OF sd, of "new_Date mdt 2025 8 6 10 0 0"] sd w1 w2
    by metis
  show ?thesis
    using todaySchedule_weekday_only [OF sd, of "new_Date mdt 2025 8 6 10 0 0"]
      todaySchedule_weekday_only [OF sd, of "new_Date mdt 2025 9 2 10 0 0"]
      sd w1 tu ns same
    by simp
qed

section \<open>Event resolver\<close>







section \<open>Calendar importer: failures\<close>

lemma forEach_vevents_append:
  "forEach_vevents s (vs @ ws) =
     (case forEach_vevents s vs of
        (s', None) \<Rightarrow> forEach_vevents s' ws
      | (s', Some err) \<Rightarrow> (s', Some err))"
  by (induction vs arbitrary: s) (auto split: sum.splits)

lemma import_vevent_ok:
  "v_startDate v \<noteq> None \<Longrightarrow> \<exists>s'. import_vevent s v = Inr s' \<and> length (allEvents s') = length (allEvents s) + 1"
  by (auto simp: import_vevent_def Let_def)

lemma forEach_vevents_ok:
  "\<forall>v \<in> set vs. v_startDate v \<noteq> None \<Longrightarrow>
   snd (forEach_vevents s vs) = None
   \<and> length (allEvents (fst (forEach_vevents s vs))) = length (allEvents s) + length vs"
proof (induction vs arbitrary: s)
  case Nil
  show ?case by simp
next
  case (Cons v vs)
  from Cons.prems obtain s' where s': "import_vevent s v = Inr s'"
      "length (allEvents s') = length (allEvents s) + 1"
    using import_vevent_ok [of v s] by auto
  from Cons.prems have "\<forall>v \<in> set vs. v_startDate v \<noteq> None" by simp
  from Cons.IH [OF this, of s'] show ?case by (simp add: s')
qed

lemma forEach_vevents_stop:
  assumes "\<forall>v \<in> set vs. v_startDate v \<noteq> None" and "v_startDate v = None"
  shows "forEach_vevents s (vs @ v # ws) = (fst (forEach_vevents s vs), Some TypeError)"
proof -
  have "snd (forEach_vevents s vs) = None"
    using forEach_vevents_ok [OF assms(1)] by simp
  then obtain s' where s': "forEach_vevents s vs = (s', None)"
    by (cases "forEach_vevents s vs") simp
  have "import_vevent s' v = Inl TypeError"
    using assms(2) by (simp add: import_vevent_def)
  then show ?thesis
    by (simp add: forEach_vevents_append s')
qed

text \<open>
  Claim C6, as the code has it. \<open>parseICSCalendar\<close> never passes an exception to its
  caller. When the feed fails to parse it returns an empty map and an empty list, and
  logs the error. When every component has a start, every one of them gives an event
  and nothing is logged. When a component has no start, the import stops there: the
  result holds what the components before it gave, nothing of the components after it,
  and the \<open>TypeError\<close> is logged.
\<close>

theorem parseICSCalendar_failures:
  "(\<exists>r. parseICSCalendar parsed = Inr r)
   \<and> (parsed = Inl err \<longrightarrow>
        parseICSCalendar parsed
          = Inr \<lparr>res_abDays = Map.empty, res_allEvents = [], logged = Some err\<rparr>)
   \<and> ((\<forall>v \<in> set vs. v_startDate v \<noteq> None) \<longrightarrow>
        imported_log (parseICSCalendar (Inr vs)) = None
        \<and> length (imported_events (parseICSCalendar (Inr vs))) = length vs)
   \<and> ((\<forall>v \<in> set vs. v_startDate v \<noteq> None) \<and> v_startDate v = None \<longrightarrow>
        imported_events (parseICSCalendar (Inr (vs @ v # ws)))
          = imported_events (parseICSCalendar (Inr vs))
        \<and> imported_abDays (parseICSCalendar (Inr (vs @ v # ws)))
          = imported_abDays (parseICSCalendar (Inr vs))
        \<and> imported_log (parseICSCalendar (Inr (vs @ v # ws))) = Some TypeError)"
proof (intro conjI impI)
  show "\<exists>r. parseICSCalendar parsed = Inr r"
    by (simp add: parseICSCalendar_def split: prod.splits)
  show "parseICSCalendar parsed
      = Inr \<lparr>res_abDays = Map.empty, res_allEvents = [], logged = Some err\<rparr>"
    if "parsed = Inl err"
    using that by (simp add: parseICSCalendar_def try_block_def)
next
  assume ok: "\<forall>v \<in> set vs. v_startDate v \<noteq> None"
  obtain s' x where f: "forEach_vevents \<lparr>abDays = Map.empty, allEvents = []\<rparr> vs = (s', x)"
    by (cases "forEach_vevents \<lparr>abDays = Map.empty, allEvents = []\<rparr> vs")
  from forEach_vevents_ok [OF ok, of "\<lparr>abDays = Map.empty, allEvents = []\<rparr>"]
  have "x = None" and "length (allEvents s') = length vs"
    by (simp_all add: f)
  then show "imported_log (parseICSCalendar (Inr vs)) = None"
    and "length (imported_events (parseICSCalendar (Inr vs))) = length vs"
    by (simp_all add: parseICSCalendar_def try_block_def f imported_log_def imported_events_def)
next
  assume h: "(\<forall>v \<in> set vs. v_startDate v \<noteq> None) \<and> v_startDate v = None"
  obtain s' x where f: "forEach_vevents \<lparr>abDays = Map.empty, allEvents = []\<rparr> vs = (s', x)"
    by (cases "forEach_vevents \<lparr>abDays = Map.empty, allEvents = []\<rparr> vs")
  have stop: "forEach_vevents \<lparr>abDays = Map.empty, allEvents = []\<rparr> (vs @ v # ws)
      = (s', Some TypeError)"
    using forEach_vevents_stop [of vs v "\<lparr>abDays = Map.empty, allEvents = []\<rparr>" ws] h
    by (simp add: f)
  show "imported_events (parseICSCalendar (Inr (vs @ v # ws)))
      = imported_events (parseICSCalendar (Inr vs))"
    by (simp add: parseICSCalendar_def try_block_def f stop imported_events_def)
  show "imported_abDays (parseICSCalendar (Inr (vs @ v # ws)))
      = imported_abDays (parseICSCalendar (Inr vs))"
    by (simp add: parseICSCalendar_def try_block_def f stop imported_abDays_def)
  show "imported_log (parseICSCalendar (Inr (vs @ v # ws))) = Some TypeError"
    by (simp add: parseICSCalendar_def try_block_def f stop imported_log_def)
qed

text \<open>
  A feed of the A day, the component without a start and the meeting: the A day is
  imported, the meeting is not.
\<close>

theorem parseICSCalendar_failures_witness:
  "v_startDate vevent_A_day \<noteq> None \<and> v_startDate vevent_no_start = None
   \<and> length (imported_events (parseICSCalendar (Inr [vevent_A_day]))) = 1
   \<and> imported_events (parseICSCalendar (Inr ([vevent_A_day] @ vevent_no_start # [vevent_meeting])))
       = imported_events (parseICSCalendar (Inr [vevent_A_day]))
   \<and> imported_log (parseICSCalendar (Inr ([vevent_A_day] @ vevent_no_start # [vevent_meeting])))
       = Some TypeError"
proof -
  have a: "\<forall>v \<in> set [vevent_A_day]. v_startDate v \<noteq> None"
    by (simp add: vevent_A_day_def)
  have b: "v_startDate vevent_no_start = None"
    by (simp add: vevent_no_start_def)
  show ?thesis
    using parseICSCalendar_failures [of "Inr [vevent_A_day]" ParserError "[vevent_A_day]"
        vevent_no_start "[vevent_meeting]"] a b
    by simp
qed

text \<open>
  The claim as it was stated fails: the meeting is a well-formed component, imported
  when it is alone in the feed, and lost when the component without a start comes
  before it.
\<close>

theorem parseICSCalendar_failures_counterexample:
  "v_startDate vevent_meeting \<noteq> None
   \<and> length (imported_events (parseICSCalendar (Inr [vevent_meeting]))) = 1
   \<and> imported_events (parseICSCalendar (Inr [vevent_no_start, vevent_meeting])) = []"
  by (simp add: parseICSCalendar_def try_block_def import_vevent_def imported_events_def
      vevent_meeting_def vevent_no_start_def Let_def)

section \<open>Period matcher: labels\<close>

text \<open>
  Claim C7, as the code has it. For a row whose code is a pair, the label is the first
  element on an A day; on a B day it is the second element unless the first element is
  \<open>LUNCH\<close>; a pair whose first element is \<open>LUNCH\<close> gives \<open>LUNCH\<close> on either
  rotation. A code that is a single text is the label. On a school day
  \<open>buildPeriodStructure\<close> gives each row of the table this label.
\<close>

theorem row_label_rotation:
  "(row_code row = Codes [a, b] \<and> getABDay e now = Some DayA \<longrightarrow> row_label e now row = Some a)
   \<and> (row_code row = Codes [a, b] \<and> getABDay e now = Some DayB \<and> a \<noteq> ''LUNCH''
        \<longrightarrow> row_label e now row = Some b)
   \<and> (row_code row = Codes [a, b] \<and> a = ''LUNCH'' \<longrightarrow> row_label e now row = Some a)
   \<and> (row_code row = Label l \<longrightarrow> row_label e now row = Some l)
   \<and> (getABDay e now \<noteq> None \<longrightarrow>
        (\<exists>items. buildPeriodStructure e now = Periods items
           \<and> map item_row items = todaySchedule e now
           \<and> map item_label items = map (row_label e now) (todaySchedule e now)))"
  by (auto simp: row_label_def labelFromCode_def at_index_def buildPeriodStructure_def
      period_item_of_def Let_def comp_def)

text \<open>
  The first row of the regular table has the code \<open>[A1, B1]\<close>: it is labelled \<open>A1\<close> on
  Thursday 2025-08-21, an A day, and \<open>B1\<close> on Thursday 2025-08-14, a B day; the lunch
  row of that table keeps its single label.
\<close>

theorem row_label_rotation_witness:
  "getABDay engine (new_Date mdt 2025 8 21 8 0 0) = Some DayA
   \<and> getABDay engine (new_Date mdt 2025 8 14 8 0 0) = Some DayB
   \<and> row_label engine (new_Date mdt 2025 8 21 8 0 0) (regular year_2025 ! 0) = Some ''A1''
   \<and> row_label engine (new_Date mdt 2025 8 14 8 0 0) (regular year_2025 ! 0) = Some ''B1''
   \<and> row_label engine (new_Date mdt 2025 8 14 8 0 0) (regular year_2025 ! 2) = Some ''LUNCH''"
proof -
  have A: "getABDay engine (new_Date mdt 2025 8 21 8 0 0) = Some DayA" by code_simp
  have B: "getABDay engine (new_Date mdt 2025 8 14 8 0 0) = Some DayB" by code_simp
  have r0: "row_code (regular year_2025 ! 0) = Codes [''A1'', ''B1'']"
    by (simp add: year_2025_def)
  have r2: "row_code (regular year_2025 ! 2) = Label ''LUNCH''"
    by (simp add: year_2025_def)
  show ?thesis
    using row_label_rotation [of "regular year_2025 ! 0" "''A1''" "''B1''" engine
        "new_Date mdt 2025 8 21 8 0 0" "''LUNCH''"]
      row_label_rotation [of "regular year_2025 ! 0" "''A1''" "''B1''" engine
        "new_Date mdt 2025 8 14 8 0 0" "''LUNCH''"]
      row_label_rotation [of "regular year_2025 ! 2" "''A1''" "''B1''" engine
        "new_Date mdt 2025 8 14 8 0 0" "''LUNCH''"]
      A B r0 r2
    by simp
qed

text \<open>
  The claim as it was stated fails for a pair that starts with \<open>LUNCH\<close>: on the B day
  2025-08-14 the row with the code \<open>[LUNCH, B5]\<close> is labelled \<open>LUNCH\<close>, its first
  element.
\<close>

theorem row_label_rotation_counterexample:
  "row_code lunch_row = Codes [''LUNCH'', ''B5'']
   \<and> getABDay engine (new_Date mdt 2025 8 14 12 10 0) = Some DayB
   \<and> row_label engine (new_Date mdt 2025 8 14 12 10 0) lunch_row = Some ''LUNCH''"
proof (intro conjI)
  show "row_code lunch_row = Codes [''LUNCH'', ''B5'']" by (simp add: lunch_row_def)
  show "getABDay engine (new_Date mdt 2025 8 14 12 10 0) = Some DayB" by code_simp
  show "row_label engine (new_Date mdt 2025 8 14 12 10 0) lunch_row = Some ''LUNCH''"
    by (simp add: row_label_def lunch_row_def labelFromCode_def at_index_def)
qed

section \<open>Day classifier: the end of the school year\<close>

lemma same_date_le_iff:
  assumes "local_date e d = local_date e d'"
  shows "d \<le> d' \<longleftrightarrow> time_of_day e d \<le> time_of_day e d'"
proof -
  have "d = UTC (tz_offset e) (MakeDate (local_date e d) (time_of_day e d))"
    and "d' = UTC (tz_offset e) (MakeDate (local_date e d') (time_of_day e d'))"
    unfolding local_date_def time_of_day_def by (rule instant_split)+
  then show ?thesis
    unfolding assms UTC_def MakeDate_def by linarith
qed

text \<open>
  Claim C10, as the code has it. The range is tested on instants: an instant on the
  calendar day of \<open>config.end\<close> whose time of day is strictly after that of
  \<open>config.end\<close> is not a school day and has no rotation; one whose time of day is not
  after it is a school day when it is not before \<open>config.start\<close>, not on a weekend and
  not on an off day.
\<close>

theorem isSchoolDay_end_of_range:
  assumes "scheduleData e = Some sd" and "local_date e d = local_date e (schoolEnd sd)"
  shows "(time_of_day e d > time_of_day e (schoolEnd sd)
            \<longrightarrow> \<not> isSchoolDay e d \<and> getABDay e d = None)
    \<and> (time_of_day e d \<le> time_of_day e (schoolEnd sd) \<and> schoolStart sd \<le> d
          \<and> \<not> isWeekend (tz_offset e) d \<and> ymd (tz_offset e) d \<notin> set (offDays sd)
        \<longrightarrow> isSchoolDay e d)"
  using assms(1) same_date_le_iff [OF assms(2)]
  by (auto simp: isSchoolDay_def getABDay_def Let_def)

text \<open>
  With the school year ending at 15:00 on Friday 2026-05-22, 14:00 of that day is a
  school day and 15:30 is not.
\<close>

theorem isSchoolDay_end_of_range_witness:
  "scheduleData engine_1500 = Some year_until_1500
   \<and> local_date engine_1500 (new_Date mdt 2026 5 22 15 30 0)
       = local_date engine_1500 (schoolEnd year_until_1500)
   \<and> time_of_day engine_1500 (new_Date mdt 2026 5 22 15 30 0)
       > time_of_day engine_1500 (schoolEnd year_until_1500)
   \<and> \<not> isSchoolDay engine_1500 (new_Date mdt 2026 5 22 15 30 0)
   \<and> getABDay engine_1500 (new_Date mdt 2026 5 22 15 30 0) = None
   \<and> isSchoolDay engine_1500 (new_Date mdt 2026 5 22 14 0 0)"
proof -
  have sd: "scheduleData engine_1500 = Some year_until_1500"
    by (simp add: engine_1500_def engine_def)
  have d1: "local_date engine_1500 (new_Date mdt 2026 5 22 15 30 0)
      = local_date engine_1500 (schoolEnd year_until_1500)" by code_simp
  have t1: "time_of_day engine_1500 (new_Date mdt 2026 5 22 15 30 0)
      > time_of_day engine_1500 (schoolEnd year_until_1500)" by code_simp
  have d2: "local_date engine_1500 (new_Date mdt 2026 5 22 14 0 0)
      = local_date engine_1500 (schoolEnd year_until_1500)" by code_simp
  have t2: "time_of_day engine_1500 (new_Date mdt 2026 5 22 14 0 0)
      \<le> time_of_day engine_1500 (schoolEnd year_until_1500)" by code_simp
  have s2: "schoolStart year_until_1500 \<le> new_Date mdt 2026 5 22 14 0 0" by code_simp
  have w2: "\<not> isWeekend (tz_offset engine_1500) (new_Date mdt 2026 5 22 14 0 0)" by code_simp
  have o2: "ymd (tz_offset engine_1500) (new_Date mdt 2026 5 22 14 0 0)
      \<notin> set (offDays year_until_1500)" by code_simp
  show ?thesis
    using isSchoolDay_end_of_range [OF sd d1] isSchoolDay_end_of_range [OF sd d2]
      sd d1 t1 t2 s2 w2 o2
    by simp
qed

text \<open>
  The claim as it was stated fails: Friday 2026-05-22 at 15:30 is on the calendar day
  of \<open>config.end\<close>, after its time of day, not before the start, on a weekday that is
  not an off day, and it is not a school day.
\<close>

theorem isSchoolDay_end_of_range_counterexample:
  "ymd mdt (new_Date mdt 2026 5 22 15 30 0) = ymd mdt (schoolEnd year_until_1500)
   \<and> schoolEnd year_until_1500 < new_Date mdt 2026 5 22 15 30 0
   \<and> schoolStart year_until_1500 \<le> new_Date mdt 2026 5 22 15 30 0
   \<and> format_dddd mdt (new_Date mdt 2026 5 22 15 30 0) = ''Friday''
   \<and> ymd mdt (new_Date mdt 2026 5 22 15 30 0) \<notin> set (offDays year_until_1500)
   \<and> \<not> isSchoolDay engine_1500 (new_Date mdt 2026 5 22 15 30 0)"
proof (intro conjI)
  show "ymd mdt (new_Date mdt 2026 5 22 15 30 0) = ymd mdt (schoolEnd year_until_1500)"
    by code_simp
  show "schoolEnd year_until_1500 < new_Date mdt 2026 5 22 15 30 0" by code_simp
  show "schoolStart year_until_1500 \<le> new_Date mdt 2026 5 22 15 30 0" by code_simp
  show "format_dddd mdt (new_Date mdt 2026 5 22 15 30 0) = ''Friday''" by code_simp
  show "ymd mdt (new_Date mdt 2026 5 22 15 30 0) \<notin> set (offDays year_until_1500)"
    by code_simp
  show "\<not> isSchoolDay engine_1500 (new_Date mdt 2026 5 22 15 30 0)" by code_simp
qed

section \<open>Calendar importer: the key of a calendar entry\<close>

text \<open>
  Claim C9 at two inputs. In a browser two hours ahead of UTC, the all-day A day of
  2025-08-14 starts at local midnight, which is 22:00 of 2025-08-13 in UTC: the entry
  is stored under \<open>2025-08-13\<close>, \<open>getABDay\<close> looks up \<open>2025-08-14\<close> on that day, finds
  nothing and answers B by count. In a browser six hours behind UTC, an A day of
  2025-08-14 that starts at 18:30 is stored under \<open>2025-08-15\<close>, with the same effect.
\<close>

theorem calendar_key_is_utc_date:
  "ymd cest (new_Date cest 2025 8 14 0 0 0) = ''2025-08-14''
   \<and> toISOString_date (new_Date cest 2025 8 14 0 0 0) = ''2025-08-13''
   \<and> imported_abDays (parseICSCalendar (Inr [vevent_A_day_cest])) ''2025-08-13'' = Some DayA
   \<and> imported_abDays (parseICSCalendar (Inr [vevent_A_day_cest])) ''2025-08-14'' = None
   \<and> getABDay (load_calendar engine_cest (Inr [vevent_A_day_cest]))
        (new_Date cest 2025 8 14 10 0 0) = Some DayB
   \<and> ymd mdt (new_Date mdt 2025 8 14 18 30 0) = ''2025-08-14''
   \<and> imported_abDays (parseICSCalendar (Inr [vevent_A_day_evening])) ''2025-08-15'' = Some DayA
   \<and> imported_abDays (parseICSCalendar (Inr [vevent_A_day_evening])) ''2025-08-14'' = None
   \<and> getABDay (load_calendar engine (Inr [vevent_A_day_evening]))
        (new_Date mdt 2025 8 14 10 0 0) = Some DayB"
proof (intro conjI)
  show "ymd cest (new_Date cest 2025 8 14 0 0 0) = ''2025-08-14''" by code_simp
  show "toISOString_date (new_Date cest 2025 8 14 0 0 0) = ''2025-08-13''" by code_simp
  show "imported_abDays (parseICSCalendar (Inr [vevent_A_day_cest])) ''2025-08-13'' = Some DayA"
    by code_simp
  show "imported_abDays (parseICSCalendar (Inr [vevent_A_day_cest])) ''2025-08-14'' = None"
    by code_simp
  show "getABDay (load_calendar engine_cest (Inr [vevent_A_day_cest]))
        (new_Date cest 2025 8 14 10 0 0) = Some DayB" by code_simp
  show "ymd mdt (new_Date mdt 2025 8 14 18 30 0) = ''2025-08-14''" by code_simp
  show "imported_abDays (parseICSCalendar (Inr [vevent_A_day_evening])) ''2025-08-15'' = Some DayA"
    by code_simp
  show "imported_abDays (parseICSCalendar (Inr [vevent_A_day_evening])) ''2025-08-14'' = None"
    by code_simp
  show "getABDay (load_calendar engine (Inr [vevent_A_day_evening]))
        (new_Date mdt 2025 8 14 10 0 0) = Some DayB" by code_simp
qed

section \<open>Day classifier: the count of school days\<close>

lemma foldl_flag_same:
  "\<forall>(c, f) \<in> set chs. (c \<le> t) = (c \<le> t') \<Longrightarrow>
   foldl (\<lambda>b (c, f). if c \<le> t then f else b) b0 chs
     = foldl (\<lambda>b (c, f). if c \<le> t' then f else b) b0 chs"
  by (induction chs arbitrary: b0) auto

text \<open>
  Around a local time whose time of day no change of offset disturbs, daylight saving
  is on or off throughout the hour between its two candidate instants.
\<close>

lemma dst_at_window:
  assumes free: "clock_change_free z (TimeWithinDay lt)"
    and lo: "lt - std_offset z - msPerHour \<le> t" and hi: "t \<le> lt - std_offset z"
  shows "dst_at z t = dst_at z (lt - std_offset z - msPerHour)"
proof -
  have "(c \<le> t) = (c \<le> lt - std_offset z - msPerHour)" if cf: "(c, f) \<in> set (dst_changes z)" for c f
  proof (rule ccontr)
    assume "(c \<le> t) \<noteq> (c \<le> lt - std_offset z - msPerHour)"
    then have c: "c \<le> t" "lt - std_offset z - msPerHour < c" using lo by auto
    define x where "x = lt - (c + std_offset z)"
    have x: "0 \<le> x" "x < msPerHour" using c hi by (simp_all add: x_def)
    have "(TimeWithinDay lt - (c + std_offset z)) mod msPerDay = x mod msPerDay"
      unfolding TimeWithinDay_def x_def by (rule mod_diff_left_eq)
    also have "\<dots> = x" using x by simp
    finally have "(TimeWithinDay lt - (c + std_offset z)) mod msPerDay < msPerHour"
      using x by simp
    moreover have "msPerHour \<le> (TimeWithinDay lt - (c + std_offset z)) mod msPerDay"
      using free cf by (auto simp: clock_change_free_def list_all_iff)
    ultimately show False by simp
  qed
  then have "\<forall>(c, f) \<in> set (dst_changes z). (c \<le> t) = (c \<le> lt - std_offset z - msPerHour)"
    by auto
  then show ?thesis unfolding dst_at_def by (rule foldl_flag_same)
qed

lemma offset_at_cases: "offset_at z t = std_offset z \<or> offset_at z t = std_offset z + msPerHour"
  by (simp add: offset_at_def)

text \<open>Such a local time is the local time of its instant.\<close>

lemma LocalTime_UTC_of_local:
  assumes "clock_change_free z (TimeWithinDay lt)"
  shows "LocalTime (offset_at z (UTC_of_local z lt)) (UTC_of_local z lt) = lt"
proof (cases "dst_at z (lt - std_offset z - msPerHour)")
  case True
  then show ?thesis by (simp add: UTC_of_local_def offset_at_def LocalTime_def)
next
  case False
  moreover have "dst_at z (lt - std_offset z) = dst_at z (lt - std_offset z - msPerHour)"
    by (rule dst_at_window [OF assms]) simp_all
  ultimately show ?thesis by (simp add: UTC_of_local_def offset_at_def LocalTime_def)
qed

text \<open>Its instant is not after \<open>d\<close> exactly when it is not after the local time of \<open>d\<close>.\<close>

lemma UTC_of_local_le:
  assumes free: "clock_change_free z (TimeWithinDay lt)"
  shows "UTC_of_local z lt \<le> d \<longleftrightarrow> lt \<le> LocalTime (offset_at z d) d"
proof -
  have win: "dst_at z d = dst_at z (lt - std_offset z - msPerHour)"
    if "lt - std_offset z - msPerHour \<le> d" "d \<le> lt - std_offset z"
    using that by (rule dst_at_window [OF free])
  show ?thesis
  proof (cases "dst_at z (lt - std_offset z - msPerHour)")
    case True
    then have u: "UTC_of_local z lt = lt - std_offset z - msPerHour"
      by (simp add: UTC_of_local_def)
    show ?thesis
    proof (cases "dst_at z d")
      case True
      then show ?thesis by (auto simp: u offset_at_def LocalTime_def)
    next
      case False
      with True win have "d < lt - std_offset z - msPerHour \<or> lt - std_offset z < d"
        by fastforce
      with False show ?thesis by (auto simp: u offset_at_def LocalTime_def)
    qed
  next
    case False
    then have u: "UTC_of_local z lt = lt - std_offset z"
      by (simp add: UTC_of_local_def)
    show ?thesis
    proof (cases "dst_at z d")
      case True
      with False win have "d < lt - std_offset z - msPerHour \<or> lt - std_offset z < d"
        by fastforce
      with True show ?thesis by (auto simp: u offset_at_def LocalTime_def)
    next
      case False
      then show ?thesis by (auto simp: u offset_at_def LocalTime_def)
    qed
  qed
qed

lemma UTC_of_local_LocalTime:
  assumes "clock_change_free z (TimeWithinDay (LocalTime (offset_at z t) t))"
  shows "UTC_of_local z (LocalTime (offset_at z t) t) = t"
proof (cases "dst_at z t")
  case True
  then show ?thesis by (simp add: UTC_of_local_def offset_at_def LocalTime_def)
next
  case False
  have "dst_at z (LocalTime (offset_at z t) t - std_offset z)
      = dst_at z (LocalTime (offset_at z t) t - std_offset z - msPerHour)"
    by (rule dst_at_window [OF assms]) simp_all
  with False show ?thesis by (simp add: UTC_of_local_def offset_at_def LocalTime_def)
qed

lemma TimeWithinDay_next: "TimeWithinDay (lt + msPerDay) = TimeWithinDay lt"
  by (simp add: TimeWithinDay_def)

lemma TimeWithinDay_add_days: "TimeWithinDay (lt + int k * msPerDay) = TimeWithinDay lt"
  by (simp add: TimeWithinDay_def)

lemma Day_add_days: "Day (lt + int k * msPerDay) = Day lt + int k"
proof -
  have "(lt + int k * msPerDay) div msPerDay = int k + lt div msPerDay"
    by (rule div_mult_self1) simp
  then show ?thesis unfolding Day_def by simp
qed

text \<open>One turn of the loop goes from such a local time to the same time the next day.\<close>

lemma setDate_next_UTC_of_local:
  assumes "clock_change_free z (TimeWithinDay lt)"
  shows "setDate_next z (UTC_of_local z lt) = UTC_of_local z (lt + msPerDay)"
proof -
  have "Day lt * msPerDay + TimeWithinDay lt = lt"
    unfolding Day_def TimeWithinDay_def by (rule div_mult_mod_eq)
  then have "MakeDate (Day lt + 1) (TimeWithinDay lt) = lt + msPerDay"
    by (simp add: MakeDate_def algebra_simps)
  then show ?thesis
    by (simp add: setDate_next_def LocalTime_UTC_of_local [OF assms] Let_def)
qed

lemma day_diff:
  assumes "TimeWithinDay a \<le> TimeWithinDay b"
  shows "(b - a) div msPerDay = Day b - Day a"
proof -
  define r where "r = TimeWithinDay b - TimeWithinDay a"
  have "0 \<le> TimeWithinDay a" and "TimeWithinDay b < msPerDay"
    by (simp_all add: TimeWithinDay_def)
  then have r: "0 \<le> r" "r < msPerDay"
    using assms by (simp_all add: r_def)
  have "b = Day b * msPerDay + TimeWithinDay b"
    and "a = Day a * msPerDay + TimeWithinDay a"
    by (simp_all add: Day_def TimeWithinDay_def)
  then have "b - a = r + (Day b - Day a) * msPerDay"
    unfolding r_def by (simp add: algebra_simps)
  moreover have "(r + (Day b - Day a) * msPerDay) div msPerDay = (Day b - Day a) + r div msPerDay"
    by (rule div_mult_self1) simp
  ultimately show ?thesis using r by simp
qed

lemma upto_as_map: "[a .. a + int n - 1] = map (\<lambda>k. a + int k) [0..<n]"
proof (induction n)
  case 0
  show ?case by simp
next
  case (Suc n)
  have "[a .. a + int (Suc n) - 1] = [a .. a + int n]" by simp
  also have "\<dots> = [a .. a + int n - 1] @ [a + int n]"
    by (rule upto_rec2) simp
  finally show ?case using Suc.IH by simp
qed

text \<open>
  The loop, started at the instant of such a local time, tests that time of day on each
  date up to the date of \<open>d\<close>, or the date before when \<open>d\<close> is earlier in its day, and
  adds to its counter the number of those that are school days.
\<close>

lemma count_loop_days:
  assumes "clock_change_free (time_zone e) (TimeWithinDay lt)"
    and "m = nat ((LocalTime (offset_at (time_zone e) d) d - lt) div msPerDay + 1)"
  shows "count_loop e d (UTC_of_local (time_zone e) lt) c
    = c + length (filter (\<lambda>x. isSchoolDay (at_instant e (UTC_of_local (time_zone e) x))
                                (UTC_of_local (time_zone e) x))
                   (map (\<lambda>k. lt + int k * msPerDay) [0..<m]))"
  using assms
proof (induction m arbitrary: lt c)
  case 0
  then have "(LocalTime (offset_at (time_zone e) d) d - lt) div msPerDay < 0" by simp
  then have "LocalTime (offset_at (time_zone e) d) d - lt < 0"
    by (simp add: neg_imp_zdiv_neg_iff div_neg_pos_less0 not_le pos_imp_zdiv_neg_iff)
  then have "\<not> UTC_of_local (time_zone e) lt \<le> d"
    by (simp add: UTC_of_local_le [OF "0.prems"(1)])
  then show ?case by (subst count_loop.simps) simp
next
  case (Suc m)
  define ld where "ld = LocalTime (offset_at (time_zone e) d) d"
  have K: "0 \<le> (ld - lt) div msPerDay" "nat ((ld - lt) div msPerDay) = m"
    using Suc.prems(2) by (simp_all add: ld_def)
  then have "lt \<le> ld" by (simp add: pos_imp_zdiv_nonneg_iff)
  then have le: "UTC_of_local (time_zone e) lt \<le> d"
    by (simp add: UTC_of_local_le [OF Suc.prems(1)] ld_def)
  have "((ld - lt) + (- 1) * msPerDay) div msPerDay = (- 1) + (ld - lt) div msPerDay"
    by (rule div_mult_self1) simp
  moreover have "ld - (lt + msPerDay) = (ld - lt) + (- 1) * msPerDay" by simp
  ultimately have m: "m = nat ((ld - (lt + msPerDay)) div msPerDay + 1)"
    using K by simp
  have free': "clock_change_free (time_zone e) (TimeWithinDay (lt + msPerDay))"
    using Suc.prems(1) by (simp add: TimeWithinDay_next)
  have idx: "[0..<Suc m] = 0 # map Suc [0..<m]"
    by (simp only: upt_conv_Cons [of 0 "Suc m"] map_Suc_upt zero_less_Suc)
  have shift: "map (\<lambda>k. lt + int k * msPerDay) (0 # map Suc [0..<m])
      = lt # map (\<lambda>k. (lt + msPerDay) + int k * msPerDay) [0..<m]"
    by (simp add: algebra_simps)
  have "count_loop e d (UTC_of_local (time_zone e) lt) c
      = count_loop e d (UTC_of_local (time_zone e) (lt + msPerDay))
          (if isSchoolDay (at_instant e (UTC_of_local (time_zone e) lt))
                (UTC_of_local (time_zone e) lt) then c + 1 else c)"
    using le by (subst count_loop.simps)
      (simp add: setDate_next_UTC_of_local [OF Suc.prems(1)])
  also have "\<dots> = (if isSchoolDay (at_instant e (UTC_of_local (time_zone e) lt))
                (UTC_of_local (time_zone e) lt) then c + 1 else c)
      + length (filter (\<lambda>x. isSchoolDay (at_instant e (UTC_of_local (time_zone e) x))
                                (UTC_of_local (time_zone e) x))
                 (map (\<lambda>k. (lt + msPerDay) + int k * msPerDay) [0..<m]))"
    using free' m unfolding ld_def by (rule Suc.IH)
  finally show ?case by (simp only: idx shift) simp
qed

text \<open>
  A tested instant between the start and \<open>d\<close> is a school day exactly when its date is
  a school date.
\<close>

lemma isSchoolDay_visit:
  assumes sd: "scheduleData e = Some sd"
    and free: "clock_change_free (time_zone e) (zone_time_of_day e (schoolStart sd))"
    and hi: "d \<le> schoolEnd sd"
    and k: "int k \<le> (LocalTime (offset_at (time_zone e) d) d
                      - LocalTime (offset_at (time_zone e) (schoolStart sd)) (schoolStart sd))
                    div msPerDay"
    and x: "x = LocalTime (offset_at (time_zone e) (schoolStart sd)) (schoolStart sd)
                + int k * msPerDay"
  shows "isSchoolDay (at_instant e (UTC_of_local (time_zone e) x)) (UTC_of_local (time_zone e) x)
      = school_date e (zone_date e (schoolStart sd) + int k)"
proof -
  define z where "z = time_zone e"
  define l0 where "l0 = LocalTime (offset_at z (schoolStart sd)) (schoolStart sd)"
  define ld where "ld = LocalTime (offset_at z d) d"
  define u where "u = UTC_of_local z x"
  have x': "x = l0 + int k * msPerDay" using x by (simp add: l0_def z_def)
  have free0: "clock_change_free z (TimeWithinDay l0)"
    using free by (simp add: zone_time_of_day_def l0_def z_def)
  then have freex: "clock_change_free z (TimeWithinDay x)"
    by (simp add: x' TimeWithinDay_add_days)
  have "int k * msPerDay \<le> ((ld - l0) div msPerDay) * msPerDay"
    using k by (simp add: ld_def l0_def z_def)
  also have "\<dots> \<le> ld - l0"
  proof -
    have "(ld - l0) div msPerDay * msPerDay + (ld - l0) mod msPerDay = ld - l0"
      by (rule div_mult_mod_eq)
    moreover have "0 \<le> (ld - l0) mod msPerDay" by simp
    ultimately show ?thesis by linarith
  qed
  finally have "x \<le> ld" by (simp add: x')
  then have "u \<le> d"
    by (simp add: u_def UTC_of_local_le [OF freex] ld_def)
  then have up: "u \<le> schoolEnd sd" using hi by simp
  have lo: "schoolStart sd \<le> u"
  proof (cases k)
    case 0
    then have "u = UTC_of_local z l0" by (simp add: u_def x')
    also have "\<dots> = schoolStart sd"
      unfolding l0_def using free0 unfolding l0_def by (rule UTC_of_local_LocalTime)
    finally show ?thesis by simp
  next
    case (Suc j)
    have "schoolStart sd + std_offset z \<le> l0"
      by (simp add: l0_def LocalTime_def offset_at_def)
    moreover have "x - std_offset z - msPerHour \<le> u"
      by (simp add: u_def UTC_of_local_def)
    moreover have "l0 + msPerDay \<le> x"
      by (simp add: x' Suc algebra_simps)
    ultimately show ?thesis by simp
  qed
  have loc: "LocalTime (offset_at z u) u = x"
    unfolding u_def using freex by (rule LocalTime_UTC_of_local)
  have day: "Day x = zone_date e (schoolStart sd) + int k"
    by (simp add: x' Day_add_days zone_date_def l0_def z_def)
  have "isSchoolDay (at_instant e u) u
      = (weekday_of_date (Day x) \<noteq> 0 \<and> weekday_of_date (Day x) \<noteq> 6
         \<and> format_YYYY_MM_DD (Day x) \<notin> set (offDays sd))"
    using up lo
    by (simp add: isSchoolDay_def at_instant_def sd isWeekend_def getDay_def ymd_def
        z_def [symmetric] loc weekday_of_date_def Let_def)
  then show ?thesis
    by (simp add: u_def z_def school_date_def sd day)
qed

lemma count_loop_school_days:
  assumes sd: "scheduleData e = Some sd"
    and lo: "schoolStart sd \<le> d" and hi: "d \<le> schoolEnd sd"
    and tod: "zone_time_of_day e (schoolStart sd) \<le> zone_time_of_day e d"
    and free: "clock_change_free (time_zone e) (zone_time_of_day e (schoolStart sd))"
  shows "count_loop e d (schoolStart sd) 0 = school_days_upto e d"
    and "zone_date e (schoolStart sd) \<le> zone_date e d"
proof -
  define z where "z = time_zone e"
  define l0 where "l0 = LocalTime (offset_at z (schoolStart sd)) (schoolStart sd)"
  define ld where "ld = LocalTime (offset_at z d) d"
  define a where "a = zone_date e (schoolStart sd)"
  define n where "n = nat ((ld - l0) div msPerDay + 1)"
  have free0: "clock_change_free z (TimeWithinDay l0)"
    using free by (simp add: zone_time_of_day_def l0_def z_def)
  have start: "UTC_of_local z l0 = schoolStart sd"
    unfolding l0_def using free0 unfolding l0_def by (rule UTC_of_local_LocalTime)
  have "l0 \<le> ld"
    using lo UTC_of_local_le [OF free0, of d] by (simp add: start ld_def)
  then have ab: "a \<le> zone_date e d"
    by (simp add: a_def zone_date_def l0_def ld_def z_def Day_def zdiv_mono1)
  then show "zone_date e (schoolStart sd) \<le> zone_date e d" by (simp add: a_def)
  have diff: "(ld - l0) div msPerDay = zone_date e d - a"
    using day_diff [of l0 ld] tod
    by (simp add: a_def zone_date_def zone_time_of_day_def l0_def ld_def z_def)
  have "zone_date e d = a + int n - 1"
    using ab by (simp add: n_def diff)
  then have dates: "[a .. zone_date e d] = map (\<lambda>k. a + int k) [0..<n]"
    by (simp only: upto_as_map)
  have each: "isSchoolDay (at_instant e (UTC_of_local z (l0 + int k * msPerDay)))
        (UTC_of_local z (l0 + int k * msPerDay)) = school_date e (a + int k)"
    if "k \<in> set [0..<n]" for k
  proof -
    from that have "int k \<le> (ld - l0) div msPerDay"
      by (simp add: n_def)
    then show ?thesis
      unfolding a_def z_def l0_def ld_def
      by (intro isSchoolDay_visit [OF sd free hi]) simp_all
  qed
  have "count_loop e d (schoolStart sd) 0 = count_loop e d (UTC_of_local z l0) 0"
    by (simp add: start)
  also have "\<dots> = length (filter (\<lambda>x. isSchoolDay (at_instant e (UTC_of_local z x))
                                (UTC_of_local z x))
                   (map (\<lambda>k. l0 + int k * msPerDay) [0..<n]))"
    using count_loop_days [of e l0 n d 0] free0
    by (simp add: z_def n_def ld_def)
  also have "\<dots> = length (filter (\<lambda>k. isSchoolDay
          (at_instant e (UTC_of_local z (l0 + int k * msPerDay)))
          (UTC_of_local z (l0 + int k * msPerDay))) [0..<n])"
    by (simp add: filter_map comp_def)
  also have "\<dots> = length (filter (\<lambda>k. school_date e (a + int k)) [0..<n])"
  proof -
    have "filter (\<lambda>k. isSchoolDay (at_instant e (UTC_of_local z (l0 + int k * msPerDay)))
          (UTC_of_local z (l0 + int k * msPerDay))) [0..<n]
        = filter (\<lambda>k. school_date e (a + int k)) [0..<n]"
      by (rule filter_cong [OF refl]) (rule each)
    then show ?thesis by simp
  qed
  also have "\<dots> = length (filter (school_date e) (map (\<lambda>k. a + int k) [0..<n]))"
    by (simp add: filter_map comp_def)
  also have "\<dots> = school_days_upto e d"
  proof -
    have "school_days_upto e d = length (filter (school_date e) [a .. zone_date e d])"
      by (simp add: school_days_upto_def sd a_def)
    then show ?thesis by (simp only: dates)
  qed
  finally show "count_loop e d (schoolStart sd) 0 = school_days_upto e d" .
qed

text \<open>Properties that do not depend on the offset in force.\<close>

lemma at_instant_simps:
  "scheduleData (at_instant e t) = scheduleData e"
  "time_zone (at_instant e t) = time_zone e"
  "calendarABDays (at_instant e t) = calendarABDays e"
  "tz_offset (at_instant e t) = offset_at (time_zone e) t"
  "at_instant (at_instant e t) t' = at_instant e t'"
  by (simp_all add: at_instant_def)

lemma count_loop_at_instant: "count_loop (at_instant e t) d cur c = count_loop e d cur c"
proof (induction e d cur c rule: count_loop.induct)
  case (1 e d cur c)
  show ?case
  proof (cases "cur \<le> d")
    case True
    show ?thesis
      using True "1.IH" [OF True]
      by (subst count_loop.simps, subst (2) count_loop.simps) (simp add: at_instant_simps)
  next
    case False
    then show ?thesis
      by (subst count_loop.simps, subst (2) count_loop.simps) simp
  qed
qed

lemma school_date_at_instant: "school_date (at_instant e t) k = school_date e k"
  by (simp add: school_date_def at_instant_simps)

lemma getABDay_count:
  assumes sd: "scheduleData e = Some sd"
    and school: "isSchoolDay (at_instant e d) d"
    and noov: "calendarABDays e (ymd (offset_at (time_zone e) d) d) = None"
    and tod: "zone_time_of_day e (schoolStart sd) \<le> zone_time_of_day e d"
    and free: "clock_change_free (time_zone e) (zone_time_of_day e (schoolStart sd))"
  shows "getABDay (at_instant e d) d
      = Some (if odd (school_days_upto e d) then DayA else DayB)"
proof -
  have range: "schoolStart sd \<le> d" "d \<le> schoolEnd sd"
    using school by (simp_all add: isSchoolDay_def at_instant_simps sd)
  have "count_loop e d (schoolStart sd) 0 = school_days_upto e d"
    by (rule count_loop_school_days(1) [OF sd range tod free])
  then show ?thesis
    using school noov
    by (simp add: getABDay_def at_instant_simps sd count_loop_at_instant Let_def
        odd_iff_mod_2_eq_one)
qed

lemma isSchoolDay_school_date:
  "isSchoolDay (at_instant e d) d \<Longrightarrow> school_date e (zone_date e d)"
  by (auto simp: isSchoolDay_def school_date_def zone_date_def isWeekend_def getDay_def
      ymd_def weekday_of_date_def at_instant_simps Let_def split: option.splits)

lemma count_first:
  assumes "a \<le> b" and "P b" and "\<forall>k. a \<le> k \<and> k < b \<longrightarrow> \<not> P k"
  shows "length (filter P [a..b]) = 1"
proof -
  have "[a..b] = [a..b - 1] @ [b]" using assms(1) by (rule upto_rec2)
  moreover have "filter P [a..b - 1] = []"
    using assms(3) by (simp add: filter_empty_conv)
  ultimately show ?thesis using assms(2) by simp
qed

lemma count_next:
  assumes "a \<le> b" and "b < c" and "P c" and "\<forall>k. b < k \<and> k < c \<longrightarrow> \<not> P k"
  shows "length (filter P [a..c]) = length (filter P [a..b]) + 1"
proof -
  have "[a..c] = [a..b] @ [b + 1..c]"
    using assms(1,2) by (intro upto_split2) simp_all
  moreover have "length (filter P [b + 1..c]) = 1"
    using assms(2,3,4) by (intro count_first) simp_all
  ultimately show ?thesis by simp
qed

text \<open>
  Claim C3, as the code has it. Take a school-day instant \<open>d\<close> with no calendar entry
  for its date, whose time of day is not earlier than the time of day of
  \<open>config.start\<close>, that time of day being one that no change of offset of the time
  zone skips or repeats (a local midnight in America/Denver, say). Then the rotation is
  A exactly when the number of school dates from the date of \<open>config.start\<close> to the
  date of \<open>d\<close> is odd, and B exactly when it is even. Hence the first school date is an
  A day, and of two such instants on consecutive school dates one is an A day and the
  other a B day.
\<close>

theorem getABDay_parity:
  assumes sd: "scheduleData e = Some sd"
    and school: "isSchoolDay (at_instant e d) d"
    and noov: "calendarABDays e (ymd (offset_at (time_zone e) d) d) = None"
    and tod: "zone_time_of_day e (schoolStart sd) \<le> zone_time_of_day e d"
    and free: "clock_change_free (time_zone e) (zone_time_of_day e (schoolStart sd))"
  shows "(getABDay (at_instant e d) d = Some DayA \<longleftrightarrow> odd (school_days_upto e d))
    \<and> (getABDay (at_instant e d) d = Some DayB \<longleftrightarrow> even (school_days_upto e d))
    \<and> ((\<forall>k. zone_date e (schoolStart sd) \<le> k \<and> k < zone_date e d \<longrightarrow> \<not> school_date e k)
         \<longrightarrow> getABDay (at_instant e d) d = Some DayA)
    \<and> (\<forall>d'. isSchoolDay (at_instant e d') d'
            \<and> calendarABDays e (ymd (offset_at (time_zone e) d') d') = None
            \<and> zone_time_of_day e (schoolStart sd) \<le> zone_time_of_day e d'
            \<and> zone_date e d < zone_date e d'
            \<and> (\<forall>k. zone_date e d < k \<and> k < zone_date e d' \<longrightarrow> \<not> school_date e k)
          \<longrightarrow> getABDay (at_instant e d') d' \<noteq> getABDay (at_instant e d) d)"
proof (intro conjI allI impI)
  have parity: "getABDay (at_instant e d) d
      = Some (if odd (school_days_upto e d) then DayA else DayB)"
    by (rule getABDay_count [OF sd school noov tod free])
  show "getABDay (at_instant e d) d = Some DayA \<longleftrightarrow> odd (school_days_upto e d)"
    by (simp add: parity)
  show "getABDay (at_instant e d) d = Some DayB \<longleftrightarrow> even (school_days_upto e d)"
    by (simp add: parity)
  have range: "schoolStart sd \<le> d" "d \<le> schoolEnd sd"
    using school by (simp_all add: isSchoolDay_def at_instant_simps sd)
  have a: "zone_date e (schoolStart sd) \<le> zone_date e d"
    by (rule count_loop_school_days(2) [OF sd range tod free])
  show "getABDay (at_instant e d) d = Some DayA"
    if "\<forall>k. zone_date e (schoolStart sd) \<le> k \<and> k < zone_date e d \<longrightarrow> \<not> school_date e k"
  proof -
    have "school_days_upto e d = 1"
      unfolding school_days_upto_def sd option.case
      using a isSchoolDay_school_date [OF school] that by (rule count_first)
    then show ?thesis by (simp add: parity)
  qed
  show "getABDay (at_instant e d') d' \<noteq> getABDay (at_instant e d) d"
    if h: "isSchoolDay (at_instant e d') d'
            \<and> calendarABDays e (ymd (offset_at (time_zone e) d') d') = None
            \<and> zone_time_of_day e (schoolStart sd) \<le> zone_time_of_day e d'
            \<and> zone_date e d < zone_date e d'
            \<and> (\<forall>k. zone_date e d < k \<and> k < zone_date e d' \<longrightarrow> \<not> school_date e k)"
    for d'
  proof -
    have parity': "getABDay (at_instant e d') d'
        = Some (if odd (school_days_upto e d') then DayA else DayB)"
      using h free by (intro getABDay_count [OF sd]) simp_all
    have "school_days_upto e d' = school_days_upto e d + 1"
      unfolding school_days_upto_def sd option.case
      using a h isSchoolDay_school_date [of e d'] by (intro count_next) simp_all
    then show ?thesis by (simp add: parity parity')
  qed
qed

text \<open>
  In America/Denver, with the school year starting at midnight of Wednesday 2025-08-13:
  that Wednesday is the first school date and an A day, Thursday 2025-08-14 is a B day.
  Monday 2025-11-03 at 23:30, after the end of daylight saving on 2025-11-02, is the
  58th school date and a B day.
\<close>

theorem getABDay_parity_witness:
  "scheduleData engine = Some year_2025
   \<and> clock_change_free (time_zone engine) (zone_time_of_day engine (schoolStart year_2025))
   \<and> isSchoolDay (at_instant engine (new_Date mdt 2025 8 13 7 50 0)) (new_Date mdt 2025 8 13 7 50 0)
   \<and> school_days_upto engine (new_Date mdt 2025 8 13 7 50 0) = 1
   \<and> getABDay (at_instant engine (new_Date mdt 2025 8 13 7 50 0)) (new_Date mdt 2025 8 13 7 50 0)
       = Some DayA
   \<and> getABDay (at_instant engine (new_Date mdt 2025 8 14 7 50 0)) (new_Date mdt 2025 8 14 7 50 0)
       \<noteq> getABDay (at_instant engine (new_Date mdt 2025 8 13 7 50 0)) (new_Date mdt 2025 8 13 7 50 0)
   \<and> offset_at denver (new_Date (- 7 * msPerHour) 2025 11 3 23 30 0) = - 7 * msPerHour
   \<and> isSchoolDay (at_instant engine (new_Date (- 7 * msPerHour) 2025 11 3 23 30 0))
        (new_Date (- 7 * msPerHour) 2025 11 3 23 30 0)
   \<and> school_days_upto engine (new_Date (- 7 * msPerHour) 2025 11 3 23 30 0) = 58
   \<and> getABDay (at_instant engine (new_Date (- 7 * msPerHour) 2025 11 3 23 30 0))
        (new_Date (- 7 * msPerHour) 2025 11 3 23 30 0) = Some DayB"
proof -
  have sd: "scheduleData engine = Some year_2025" by (simp add: engine_def)
  have fr: "clock_change_free (time_zone engine) (zone_time_of_day engine (schoolStart year_2025))"
    by code_simp
  have s1: "isSchoolDay (at_instant engine (new_Date mdt 2025 8 13 7 50 0))
      (new_Date mdt 2025 8 13 7 50 0)" by code_simp
  have n1: "calendarABDays engine
      (ymd (offset_at (time_zone engine) (new_Date mdt 2025 8 13 7 50 0))
        (new_Date mdt 2025 8 13 7 50 0)) = None"
    by (simp add: engine_def)
  have t1: "zone_time_of_day engine (schoolStart year_2025)
      \<le> zone_time_of_day engine (new_Date mdt 2025 8 13 7 50 0)" by code_simp
  have s2: "isSchoolDay (at_instant engine (new_Date mdt 2025 8 14 7 50 0))
      (new_Date mdt 2025 8 14 7 50 0)" by code_simp
  have n2: "calendarABDays engine
      (ymd (offset_at (time_zone engine) (new_Date mdt 2025 8 14 7 50 0))
        (new_Date mdt 2025 8 14 7 50 0)) = None"
    by (simp add: engine_def)
  have t2: "zone_time_of_day engine (schoolStart year_2025)
      \<le> zone_time_of_day engine (new_Date mdt 2025 8 14 7 50 0)" by code_simp
  have l1: "zone_date engine (new_Date mdt 2025 8 13 7 50 0) = 20313" by code_simp
  have l2: "zone_date engine (new_Date mdt 2025 8 14 7 50 0) = 20314" by code_simp
  have c1: "school_days_upto engine (new_Date mdt 2025 8 13 7 50 0) = 1" by code_simp
  have o3: "offset_at denver (new_Date (- 7 * msPerHour) 2025 11 3 23 30 0) = - 7 * msPerHour"
    by code_simp
  have s3: "isSchoolDay (at_instant engine (new_Date (- 7 * msPerHour) 2025 11 3 23 30 0))
      (new_Date (- 7 * msPerHour) 2025 11 3 23 30 0)" by code_simp
  have n3: "calendarABDays engine
      (ymd (offset_at (time_zone engine) (new_Date (- 7 * msPerHour) 2025 11 3 23 30 0))
        (new_Date (- 7 * msPerHour) 2025 11 3 23 30 0)) = None"
    by (simp add: engine_def)
  have t3: "zone_time_of_day engine (schoolStart year_2025)
      \<le> zone_time_of_day engine (new_Date (- 7 * msPerHour) 2025 11 3 23 30 0)" by code_simp
  have c3: "school_days_upto engine (new_Date (- 7 * msPerHour) 2025 11 3 23 30 0) = 58"
    by code_simp
  note p1 = getABDay_parity [OF sd s1 n1 t1 fr]
  note p3 = getABDay_parity [OF sd s3 n3 t3 fr]
  have A: "getABDay (at_instant engine (new_Date mdt 2025 8 13 7 50 0))
      (new_Date mdt 2025 8 13 7 50 0) = Some DayA"
    using p1 c1 by simp
  have between: "\<forall>k. zone_date engine (new_Date mdt 2025 8 13 7 50 0) < k
      \<and> k < zone_date engine (new_Date mdt 2025 8 14 7 50 0) \<longrightarrow> \<not> school_date engine k"
    unfolding l1 l2 by auto
  have alt: "getABDay (at_instant engine (new_Date mdt 2025 8 14 7 50 0))
        (new_Date mdt 2025 8 14 7 50 0)
      \<noteq> getABDay (at_instant engine (new_Date mdt 2025 8 13 7 50 0))
        (new_Date mdt 2025 8 13 7 50 0)"
    using p1 s2 n2 t2 between by (simp add: l1 l2)
  have B: "getABDay (at_instant engine (new_Date (- 7 * msPerHour) 2025 11 3 23 30 0))
      (new_Date (- 7 * msPerHour) 2025 11 3 23 30 0) = Some DayB"
    using p3 c3 by simp
  show ?thesis using sd fr s1 c1 A alt o3 s3 c3 B by simp
qed

text \<open>
  Without the condition on the time of day the claim fails. With the school year
  starting at 08:00 on Wednesday 2025-08-13, Thursday 2025-08-14 at 07:00 is a school
  day with no calendar entry; the dates from the start to it hold two school dates, an
  even number, and \<open>getABDay\<close> answers A: the loop stops before it reaches 2025-08-14
  at 08:00. Wednesday at 09:00 is an A day too.
\<close>

theorem getABDay_parity_counterexample:
  "tz_offset engine_0800 = offset_at (time_zone engine_0800) (new_Date mdt 2025 8 14 7 0 0)
   \<and> isSchoolDay engine_0800 (new_Date mdt 2025 8 14 7 0 0)
   \<and> calendarABDays engine_0800 (ymd (tz_offset engine_0800) (new_Date mdt 2025 8 14 7 0 0)) = None
   \<and> school_days_upto engine_0800 (new_Date mdt 2025 8 14 7 0 0) = 2
   \<and> getABDay engine_0800 (new_Date mdt 2025 8 14 7 0 0) = Some DayA
   \<and> isSchoolDay engine_0800 (new_Date mdt 2025 8 13 9 0 0)
   \<and> getABDay engine_0800 (new_Date mdt 2025 8 13 9 0 0) = Some DayA"
proof (intro conjI)
  show "tz_offset engine_0800 = offset_at (time_zone engine_0800) (new_Date mdt 2025 8 14 7 0 0)"
    by code_simp
  show "isSchoolDay engine_0800 (new_Date mdt 2025 8 14 7 0 0)" by code_simp
  show "calendarABDays engine_0800 (ymd (tz_offset engine_0800) (new_Date mdt 2025 8 14 7 0 0))
      = None"
    by (simp add: engine_0800_def engine_def)
  show "school_days_upto engine_0800 (new_Date mdt 2025 8 14 7 0 0) = 2" by code_simp
  show "getABDay engine_0800 (new_Date mdt 2025 8 14 7 0 0) = Some DayA" by code_simp
  show "isSchoolDay engine_0800 (new_Date mdt 2025 8 13 9 0 0)" by code_simp
  show "getABDay engine_0800 (new_Date mdt 2025 8 13 9 0 0) = Some DayA" by code_simp
qed

end
